theory Spec2Isabelle
  imports Complex_Main
begin

section \<open>Multi-shell multi-tissue deconvolution: dipy/reconst/mcsd.py\<close>

text \<open>
  The development follows \<^verbatim>\<open>src/dipy/reconst/mcsd.py\<close> function by function.
  The b-values and the singular values, whose comparisons decide which shell is nearest
  and what the rank is, are float64 values with the arithmetic of the machine. The other
  arrays of floats are modelled with entries in \<^typ>\<open>real\<close> and exact arithmetic: what
  is proved about them is which entry goes where, which branch raises and which argument
  reaches a solver. Integer index arrays are \<^typ>\<open>int list\<close>.
\<close>

subsection \<open>Exceptions\<close>

text \<open>
  \<open>ValueError\<close> carries the message of the \<^verbatim>\<open>raise\<close> statement; for a numpy operation
  that raises, the message names the operation. \<open>CalleeError\<close> is any exception that a
  routine outside this file (shm, geometry, numpy.linalg, cvxpy) raises and that
  propagates unchanged.
\<close>

datatype error =
    ValueError string
  | IndexError
  | KeyError
  | AssertionError
  | CalleeError

subsection \<open>Arrays\<close>

text \<open>
  A two-dimensional array is its shape and its entries; entries outside the shape are
  never read. A one-dimensional array is a list.
\<close>

record ndarray2 =
  shape0 :: nat
  shape1 :: nat
  item :: "nat \<Rightarrow> nat \<Rightarrow> real"

definition SH_CONST :: real where
  "SH_CONST = 0.5 / sqrt pi"

text \<open>\<^verbatim>\<open>np.arange(0, stop, 2)\<close>.\<close>

definition arange2 :: "int \<Rightarrow> int list" where
  "arange2 stop = map (\<lambda>k. 2 * int k) [0..<nat ((stop + 1) div 2)]"

text \<open>\<^verbatim>\<open>np.arange(0, stop)\<close>.\<close>

definition arange :: "int \<Rightarrow> int list" where
  "arange stop = map int [0..<nat stop]"

text \<open>\<^verbatim>\<open>A = np.empty([rows, cols]); A[:] = v\<close>.\<close>

definition full :: "nat \<Rightarrow> nat \<Rightarrow> real \<Rightarrow> ndarray2" where
  "full rows cols v = \<lparr>shape0 = rows, shape1 = cols, item = (\<lambda>i j. v)\<rparr>"

text \<open>
  \<^verbatim>\<open>np.concatenate([A, B], axis=1)\<close>; numpy raises when the row counts differ.
\<close>

definition concatenate1 :: "ndarray2 \<Rightarrow> ndarray2 \<Rightarrow> error + ndarray2" where
  "concatenate1 A B =
     (if shape0 A \<noteq> shape0 B then Inl (ValueError ''concatenate: dimensions must match'')
      else Inr \<lparr>shape0 = shape0 A, shape1 = shape1 A + shape1 B,
                item = (\<lambda>i j. if j < shape1 A then item A i j else item B i (j - shape1 A))\<rparr>)"

text \<open>
  \<^verbatim>\<open>B[np.ix_(rowmask, colmask)] = 0.\<close> for boolean masks: \<^verbatim>\<open>np.ix_\<close> turns each mask into
  the indices of its true entries, and the assignment raises when one of them is outside
  the array. numpy does not check the indices when one of the two index arrays is empty,
  since no entry is selected then.
\<close>

definition true_indices :: "bool list \<Rightarrow> nat list" where
  "true_indices flags = filter (\<lambda>i. flags ! i) [0..<length flags]"

definition assign_zero_ix :: "ndarray2 \<Rightarrow> bool list \<Rightarrow> bool list \<Rightarrow> error + ndarray2" where
  "assign_zero_ix B rowmask colmask =
     (let rs = true_indices rowmask; cs = true_indices colmask
      in if rs \<noteq> [] \<and> cs \<noteq> []
            \<and> ((\<exists>i \<in> set rs. shape0 B \<le> i) \<or> (\<exists>j \<in> set cs. shape1 B \<le> j))
         then Inl IndexError
         else Inr (B\<lparr>item := (\<lambda>i j. if i \<in> set rs \<and> j \<in> set cs then 0 else item B i j)\<rparr>))"

text \<open>
  \<^verbatim>\<open>A * B\<close> on two-dimensional arrays: numpy stretches an axis of size one to the size
  of the other array's axis and raises when two sizes differ and neither is one.
\<close>

definition bsize :: "nat \<Rightarrow> nat \<Rightarrow> nat option" where
  "bsize a b = (if a = b then Some a else if a = 1 then Some b else if b = 1 then Some a else None)"

definition bidx :: "nat \<Rightarrow> nat \<Rightarrow> nat" where
  "bidx sz i = (if sz = 1 then 0 else i)"

definition multiply :: "ndarray2 \<Rightarrow> ndarray2 \<Rightarrow> error + ndarray2" where
  "multiply A B =
     (case (bsize (shape0 A) (shape0 B), bsize (shape1 A) (shape1 B)) of
        (Some r, Some c) \<Rightarrow>
          Inr \<lparr>shape0 = r, shape1 = c,
               item = (\<lambda>i j. item A (bidx (shape0 A) i) (bidx (shape1 A) j)
                            * item B (bidx (shape0 B) i) (bidx (shape1 B) j))\<rparr>
      | _ \<Rightarrow> Inl (ValueError ''operands could not be broadcast together''))"

subsection \<open>float64\<close>

text \<open>
  \<open>Finite m e\<close> is the number \<open>m \<cdot> 2\<^sup>e\<close>; it is a float64 when \<open>\<bar>m\<bar>\<close> is below
  \<^verbatim>\<open>2**53\<close> and \<open>-1074 \<le> e \<le> 971\<close>. The type also holds the two infinities and NaN.
  The sign of a zero is not kept: no comparison reads it. An operation computes the exact
  result and rounds it to the nearest float64, a tie to the even significand, with
  gradual underflow (no digit below \<^verbatim>\<open>2**-1074\<close>) and overflow to an infinity from
  \<^verbatim>\<open>2**1024\<close> on, as IEEE 754 arithmetic in its default rounding does.
\<close>

datatype float64 = Finite int int | PInf | NInf | NaN

fun is_finite :: "float64 \<Rightarrow> bool" where
  "is_finite (Finite m e) = True"
| "is_finite a = False"

text \<open>The exact value of a finite float64.\<close>

fun valof :: "float64 \<Rightarrow> real" where
  "valof (Finite m e) =
     (if 0 \<le> e then real_of_int m * 2 ^ nat e else real_of_int m / 2 ^ nat (- e))"

text \<open>The number of binary digits of a positive integer.\<close>

function bit_length :: "int \<Rightarrow> int" where
  "bit_length n = (if n \<le> 0 then 0 else 1 + bit_length (n div 2))"
  by pat_completeness auto
termination
  by (relation "measure nat") auto

declare bit_length.simps [simp del]

text \<open>\<open>M / 2\<^sup>s\<close> rounded to the nearest integer, a tie to the even one.\<close>

definition round_half_even :: "int \<Rightarrow> nat \<Rightarrow> int" where
  "round_half_even M s =
     (if s = 0 then M
      else
        let q = M div 2 ^ s; r = M mod 2 ^ s; half = 2 ^ (s - 1)
        in if r < half then q
           else if half < r then q + 1
           else if even q then q else q + 1)"

text \<open>
  The exact value \<open>M \<cdot> 2\<^sup>e\<close> rounded to float64: \<open>e'\<close> is the exponent of the last
  place that a significand of 53 digits keeps, and not below that of the subnormals.
\<close>

definition round64 :: "int \<Rightarrow> int \<Rightarrow> float64" where
  "round64 M e =
     (if M = 0 then Finite 0 0
      else
        let k = bit_length \<bar>M\<bar>;
            e' = max (e + k - 53) (- 1074)
        in if e' \<le> e
           then (if 1024 < e + k then (if 0 < M then PInf else NInf) else Finite M e)
           else
             let M' = round_half_even M (nat (e' - e))
             in if 1024 < bit_length \<bar>M'\<bar> + e'
                then (if 0 < M then PInf else NInf)
                else Finite M' e')"

fun fsub :: "float64 \<Rightarrow> float64 \<Rightarrow> float64" where
  "fsub NaN b = NaN"
| "fsub a NaN = NaN"
| "fsub (Finite m1 e1) (Finite m2 e2) =
     (let e = min e1 e2 in round64 (m1 * 2 ^ nat (e1 - e) - m2 * 2 ^ nat (e2 - e)) e)"
| "fsub (Finite m e) PInf = NInf"
| "fsub (Finite m e) NInf = PInf"
| "fsub PInf PInf = NaN"
| "fsub NInf NInf = NaN"
| "fsub PInf b = PInf"
| "fsub NInf b = NInf"

fun fmul :: "float64 \<Rightarrow> float64 \<Rightarrow> float64" where
  "fmul NaN b = NaN"
| "fmul a NaN = NaN"
| "fmul (Finite m1 e1) (Finite m2 e2) = round64 (m1 * m2) (e1 + e2)"
| "fmul (Finite m e) PInf = (if m = 0 then NaN else if 0 < m then PInf else NInf)"
| "fmul (Finite m e) NInf = (if m = 0 then NaN else if 0 < m then NInf else PInf)"
| "fmul PInf (Finite m e) = (if m = 0 then NaN else if 0 < m then PInf else NInf)"
| "fmul NInf (Finite m e) = (if m = 0 then NaN else if 0 < m then NInf else PInf)"
| "fmul PInf PInf = PInf"
| "fmul PInf NInf = NInf"
| "fmul NInf PInf = NInf"
| "fmul NInf NInf = PInf"

fun fabs :: "float64 \<Rightarrow> float64" where
  "fabs (Finite m e) = Finite \<bar>m\<bar> e"
| "fabs PInf = PInf"
| "fabs NInf = PInf"
| "fabs NaN = NaN"

text \<open>Whether \<open>Finite m1 e1\<close> is below \<open>Finite m2 e2\<close>, computed on integers.\<close>

definition dyadic_less :: "int \<Rightarrow> int \<Rightarrow> int \<Rightarrow> int \<Rightarrow> bool" where
  "dyadic_less m1 e1 m2 e2 =
     (let e = min e1 e2 in m1 * 2 ^ nat (e1 - e) < m2 * 2 ^ nat (e2 - e))"

text \<open>\<open>a < b\<close> and \<open>a >= b\<close> on float64: false when one side is NaN.\<close>

fun flt :: "float64 \<Rightarrow> float64 \<Rightarrow> bool" where
  "flt NaN b = False"
| "flt a NaN = False"
| "flt (Finite m1 e1) (Finite m2 e2) = dyadic_less m1 e1 m2 e2"
| "flt (Finite m e) PInf = True"
| "flt (Finite m e) NInf = False"
| "flt PInf b = False"
| "flt NInf NInf = False"
| "flt NInf b = True"

definition fge :: "float64 \<Rightarrow> float64 \<Rightarrow> bool" where
  "fge a b = (a \<noteq> NaN \<and> b \<noteq> NaN \<and> \<not> flt a b)"

subsection \<open>The gradient table\<close>

text \<open>
  \<^verbatim>\<open>GradientTable\<close> is defined outside this file. It holds one gradient vector, one
  b-value and one b0 flag per measurement, so the model is a list of measurements;
  \<open>gradients\<close>, \<open>bvals\<close> and \<open>b0s_mask\<close> are its three attributes.
\<close>

record measurement =
  gradient :: "real \<times> real \<times> real"
  bval :: float64
  b0 :: bool

type_synonym GradientTable = "measurement list"

definition gradients :: "GradientTable \<Rightarrow> (real \<times> real \<times> real) list" where
  "gradients gtab = map gradient gtab"

definition bvals :: "GradientTable \<Rightarrow> float64 list" where
  "bvals gtab = map bval gtab"

definition b0s_mask :: "GradientTable \<Rightarrow> bool list" where
  "b0s_mask gtab = map b0 gtab"

subsection \<open>Routines of other modules\<close>

text \<open>
  A cvxpy problem is its sense, the number of entries of its \<^verbatim>\<open>cvx.Variable\<close>s, and
  its objective and constraints as functions of the values of those variables. The
  solver answers with the optimal value (what \<^verbatim>\<open>Problem.solve()\<close> returns) and the
  value it leaves in the variable (\<^verbatim>\<open>x.value\<close>).
\<close>

datatype sense = Minimize | Maximize

record cvx_problem =
  sense :: sense
  n_variables :: nat
  objective :: "real list \<Rightarrow> real"
  constraints :: "real list \<Rightarrow> bool"

record cvx_solution =
  opt_value :: real
  x_value :: "real list"

text \<open>
  The routines of \<^verbatim>\<open>dipy.core.geometry\<close>, \<^verbatim>\<open>dipy.reconst.shm\<close>, \<^verbatim>\<open>dipy.data\<close>,
  \<^verbatim>\<open>numpy.linalg\<close> and \<^verbatim>\<open>cvxpy\<close> that this file calls are parameters of the model;
  \<open>None\<close> is a call that raises. \<open>sph_harm_ind_list\<close> returns its two index arrays
  \<open>(m, n)\<close>, one entry of each per basis function, as a list of pairs.
  \<open>real_sph_harm\<close> is given at one \<open>(m, n)\<close> and one direction; the source calls it on
  arrays and numpy broadcasting applies it to every pair. \<open>svd\<close> is
  \<^verbatim>\<open>la.svd(A, False, False)\<close>, the singular values alone, as the float64 values it
  returns. A sphere is the list of its vertices.
\<close>

type_synonym vec3 = "real \<times> real \<times> real"

record externals =
  cart2sphere :: "vec3 \<Rightarrow> vec3"
  sphere2cart :: "real \<Rightarrow> real \<Rightarrow> real \<Rightarrow> vec3"
  vec2vec_rotmat :: "vec3 \<Rightarrow> vec3 \<Rightarrow> ndarray2"
  sph_harm_ind_list :: "int \<Rightarrow> (int \<times> int) list option"
  real_sph_harm :: "int \<Rightarrow> int \<Rightarrow> real \<Rightarrow> real \<Rightarrow> real"
  gen_dirac :: "int list \<Rightarrow> int list \<Rightarrow> real \<Rightarrow> real \<Rightarrow> real list option"
  real_sym_sh_basis :: "int \<Rightarrow> vec3 list \<Rightarrow> ndarray2 option"
  default_sphere :: "vec3 list"
  svd :: "ndarray2 \<Rightarrow> float64 list option"
  cvx_solve :: "cvx_problem \<Rightarrow> cvx_solution option"

text \<open>
  \<^verbatim>\<open>shm.real_sph_harm(m, n, theta[:, None], phi[:, None])\<close> with \<open>(m, n)\<close> paired and
  one \<open>(r, theta, phi)\<close> per row.
\<close>

definition real_sph_harm_grid ::
  "externals \<Rightarrow> (int \<times> int) list \<Rightarrow> vec3 list \<Rightarrow> ndarray2" where
  "real_sph_harm_grid ext mn sph =
     \<lparr>shape0 = length sph, shape1 = length mn,
      item = (\<lambda>i j. real_sph_harm ext (fst (mn ! j)) (snd (mn ! j))
                       (fst (snd (sph ! i))) (snd (snd (sph ! i))))\<rparr>"

subsection \<open>multi_tissue_basis (lines 14-30)\<close>

definition multi_tissue_basis ::
  "externals \<Rightarrow> GradientTable \<Rightarrow> int \<Rightarrow> int \<Rightarrow> error + (ndarray2 \<times> int list \<times> int list)" where
  "multi_tissue_basis ext gtab sh_order iso_comp =
     (if iso_comp < 1
      then Inl (ValueError ''Multi-tissue CSD requires at least 2 tissue compartments'')
      else
        let sph = map (cart2sphere ext) (gradients gtab)
        in (case sph_harm_ind_list ext sh_order of
              None \<Rightarrow> Inl CalleeError
            | Some mn \<Rightarrow>
                let m = map fst mn; n = map snd mn;
                    B = real_sph_harm_grid ext mn sph
                in (case assign_zero_ix B (b0s_mask gtab) (map (\<lambda>d. 0 < d) n) of
                      Inl e \<Rightarrow> Inl e
                    | Inr B' \<Rightarrow>
                        let iso = full (shape0 B') (nat iso_comp) SH_CONST
                        in (case concatenate1 iso B' of
                              Inl e \<Rightarrow> Inl e
                            | Inr B'' \<Rightarrow> Inr (B'', m, n)))))"

subsection \<open>MultiShellResponse (lines 33-60)\<close>

record MultiShellResponse =
  msr_response :: ndarray2
  msr_sh_order :: int
  msr_n :: "int list"
  msr_m :: "int list"
  msr_shells :: "float64 list"

text \<open>The property \<^verbatim>\<open>iso\<close>.\<close>

definition msr_iso :: "MultiShellResponse \<Rightarrow> int" where
  "msr_iso self = int (shape1 (msr_response self)) - (msr_sh_order self div 2) - 1"

definition MultiShellResponse_init ::
  "ndarray2 \<Rightarrow> int \<Rightarrow> float64 list \<Rightarrow> error + MultiShellResponse" where
  "MultiShellResponse_init response sh_order shells =
     (let n = arange2 (sh_order + 1);
          self = \<lparr>msr_response = response, msr_sh_order = sh_order,
                  msr_n = n, msr_m = map (\<lambda>_. 0) n, msr_shells = shells\<rparr>
      in if msr_iso self < 1
         then Inl (ValueError ''sh_order and shape of response do not agree'')
         else Inr self)"

subsection \<open>closest (lines 63-65)\<close>

text \<open>
  \<^verbatim>\<open>argmin\<close> returns the index of the first occurrence of the minimum and raises on an
  empty axis. The scan is numpy's loop for float64: it keeps the best index and the value
  \<open>mp\<close> there, replaces them by an entry for which \<open>x >= mp\<close> does not hold, and stops at
  a NaN, which counts as minimal.
\<close>

fun argmin_scan :: "nat \<Rightarrow> float64 \<Rightarrow> nat \<Rightarrow> float64 list \<Rightarrow> nat" where
  "argmin_scan best mp i [] = best"
| "argmin_scan best mp i (x # xs) =
     (if mp = NaN then best
      else if \<not> fge x mp then argmin_scan i x (Suc i) xs
      else argmin_scan best mp (Suc i) xs)"

definition argmin :: "float64 list \<Rightarrow> error + nat" where
  "argmin xs =
     (case xs of
        [] \<Rightarrow> Inl (ValueError ''attempt to get argmin of an empty sequence'')
      | x # rest \<Rightarrow> Inr (argmin_scan 0 x 1 rest))"

text \<open>Running a raising function over a list: the first exception ends the run.\<close>

primrec traverse :: "('a \<Rightarrow> error + 'b) \<Rightarrow> 'a list \<Rightarrow> error + 'b list" where
  "traverse f [] = Inr []"
| "traverse f (x # xs) =
     (case f x of
        Inl e \<Rightarrow> Inl e
      | Inr y \<Rightarrow> (case traverse f xs of Inl e \<Rightarrow> Inl e | Inr ys \<Rightarrow> Inr (y # ys)))"

text \<open>
  \<open>haystack\<close> and \<open>needle\<close> are arrays of float64 (numpy converts an array of
  integers to float64 when the other one holds floats). \<open>diff\<close> has one row per entry of
  \<open>haystack\<close> and one column per entry of \<open>needle\<close>, each entry the float64 difference
  without its sign; \<^verbatim>\<open>argmin(axis=0)\<close> works column by column and raises when
  \<open>haystack\<close> is empty, also when \<open>needle\<close> is.
\<close>

definition closest :: "float64 list \<Rightarrow> float64 list \<Rightarrow> error + nat list" where
  "closest haystack needle =
     (if haystack = [] then Inl (ValueError ''attempt to get argmin of an empty sequence'')
      else traverse (\<lambda>b. argmin (map (\<lambda>h. fabs (fsub h b)) haystack)) needle)"

subsection \<open>_inflate_response (lines 68-80)\<close>

text \<open>
  \<^verbatim>\<open>response.response / delta\<close>: the one-dimensional \<open>delta\<close> is broadcast along the
  rows. Where \<open>delta\<close> has a zero entry numpy gives \<open>inf\<close> or \<open>nan\<close> with a warning and
  goes on; the reals have neither, and no property below reads such an entry.
\<close>

definition divide_rows :: "ndarray2 \<Rightarrow> real list \<Rightarrow> error + ndarray2" where
  "divide_rows A d =
     (case bsize (shape1 A) (length d) of
        None \<Rightarrow> Inl (ValueError ''operands could not be broadcast together'')
      | Some c \<Rightarrow>
          Inr \<lparr>shape0 = shape0 A, shape1 = c,
               item = (\<lambda>i j. item A i (bidx (shape1 A) j) / d ! (bidx (length d) j))\<rparr>)"

text \<open>An integer index into an axis of length \<open>len\<close>: a negative index counts from the end.\<close>

definition np_index :: "nat \<Rightarrow> int \<Rightarrow> error + nat" where
  "np_index len i =
     (if 0 \<le> i \<and> i < int len then Inr (nat i)
      else if - int len \<le> i \<and> i < 0 then Inr (nat (i + int len))
      else Inl IndexError)"

text \<open>
  \<^verbatim>\<open>A[np.ix_(rows, cols)]\<close> for integer index arrays. When one of them is empty the
  result is empty and numpy does not check the other one.
\<close>

definition take_ix :: "ndarray2 \<Rightarrow> int list \<Rightarrow> int list \<Rightarrow> error + ndarray2" where
  "take_ix A rs cs =
     (if rs = [] \<or> cs = []
      then Inr \<lparr>shape0 = length rs, shape1 = length cs, item = (\<lambda>i j. 0)\<rparr>
      else
        (case traverse (np_index (shape0 A)) rs of
           Inl e \<Rightarrow> Inl e
         | Inr rs' \<Rightarrow>
             (case traverse (np_index (shape1 A)) cs of
                Inl e \<Rightarrow> Inl e
              | Inr cs' \<Rightarrow>
                  Inr \<lparr>shape0 = length rs', shape1 = length cs',
                       item = (\<lambda>i j. item A (rs' ! i) (cs' ! j))\<rparr>)))"

text \<open>
  Lines 73-75 build \<open>n_idx\<close> by two slice assignments into an array of length
  \<open>len(n) + iso\<close>. With \<open>iso \<ge> 0\<close> the first slice has \<open>iso\<close> entries and the second
  \<open>len(n)\<close>, as the assigned arrays have. With \<open>iso < 0\<close> the array cannot be created
  (negative length) or a slice is shorter than what is assigned to it and numpy raises,
  except that an array of one entry is broadcast into an empty slice: \<open>iso = -1\<close> and
  \<open>len(n) = 1\<close> leave \<open>n_idx\<close> empty. A response built by the constructor has
  \<open>iso \<ge> 1\<close>.
\<close>

definition n_idx_of :: "int \<Rightarrow> int list \<Rightarrow> error + int list" where
  "n_idx_of iso' n =
     (if 0 \<le> iso' then Inr (arange iso' @ map (\<lambda>d. d div 2 + iso') n)
      else if int (length n) + iso' < 0 then Inl (ValueError ''negative dimensions are not allowed'')
      else if iso' = - 1 \<and> length n = 1 then Inr []
      else Inl (ValueError ''could not broadcast input array''))"

definition inflate_response ::
  "MultiShellResponse \<Rightarrow> GradientTable \<Rightarrow> int list \<Rightarrow> real list \<Rightarrow> error + ndarray2" where
  "inflate_response response gtab n delta =
     (if (\<exists>d \<in> set n. d mod 2 \<noteq> 0) then Inl (ValueError ''Response and n do not match'')
      else if n = []
        then Inl (ValueError ''zero-size array to reduction operation maximum which has no identity'')
      else if msr_sh_order response \<le> Max (set n) div 2
        then Inl (ValueError ''Response and n do not match'')
      else
        (case n_idx_of (msr_iso response) n of
           Inl e \<Rightarrow> Inl e
         | Inr n_idx \<Rightarrow>
             (case closest (msr_shells response) (bvals gtab) of
                Inl e \<Rightarrow> Inl e
              | Inr b_idx \<Rightarrow>
                  (case divide_rows (msr_response response) delta of
                     Inl e \<Rightarrow> Inl e
                   | Inr kernal \<Rightarrow> take_ix kernal (map int b_idx) n_idx))))"

subsection \<open>_basic_delta (lines 83-102)\<close>

definition basic_delta ::
  "externals \<Rightarrow> int \<Rightarrow> int list \<Rightarrow> int list \<Rightarrow> real \<Rightarrow> real \<Rightarrow> error + real list" where
  "basic_delta ext iso' m n theta phi =
     (case gen_dirac ext m n theta phi of
        None \<Rightarrow> Inl CalleeError
      | Some wm_d \<Rightarrow> Inr (replicate (nat iso') SH_CONST @ wm_d))"

subsection \<open>_pos_constrained_delta (lines 105-164)\<close>

text \<open>
  \<^verbatim>\<open>real_sph_harm(m, n, ...)\<close> broadcasts the arrays \<open>m\<close> and \<open>n\<close> against each other.
\<close>

definition broadcast_mn :: "int list \<Rightarrow> int list \<Rightarrow> error + (int \<times> int) list" where
  "broadcast_mn m n =
     (case bsize (length m) (length n) of
        None \<Rightarrow> Inl (ValueError ''operands could not be broadcast together'')
      | Some c \<Rightarrow> Inr (map (\<lambda>j. (m ! bidx (length m) j, n ! bidx (length n) j)) [0..<c]))"

text \<open>One row of \<^verbatim>\<open>np.dot(vertices, M.T)\<close>.\<close>

definition dot_MT :: "ndarray2 \<Rightarrow> vec3 \<Rightarrow> vec3" where
  "dot_MT M v =
     (case v of (a, b, c) \<Rightarrow>
        (a * item M 0 0 + b * item M 0 1 + c * item M 0 2,
         a * item M 1 0 + b * item M 1 1 + c * item M 1 2,
         a * item M 2 0 + b * item M 2 1 + c * item M 2 2))"

definition negate :: "ndarray2 \<Rightarrow> ndarray2" where
  "negate A = A\<lparr>item := (\<lambda>i j. - item A i j)\<rparr>"

text \<open>
  Lines 132-157, up to the problem handed to the solver. In line 157 the objective is
  \<^verbatim>\<open>cvx.sum(c_temp)\<close>, the sum of the numpy array \<open>c_temp\<close>, and the \<open>x\<close> of the constraint
  \<^verbatim>\<open>G*x <= h\<close> is the first Cartesian coordinate bound in line 132: the problem holds
  no \<^verbatim>\<open>cvx.Variable\<close>. \<open>c_int\<close> is assigned and not used. When no degree is non-zero,
  \<open>c_temp\<close> is empty and \<^verbatim>\<open>cvx.Parameter((0, 1))\<close> of line 146 raises.
\<close>

definition pos_constrained_delta_problem ::
  "externals \<Rightarrow> int list \<Rightarrow> int list \<Rightarrow> real \<Rightarrow> real \<Rightarrow> vec3 list \<Rightarrow> error + cvx_problem" where
  "pos_constrained_delta_problem ext m n theta phi reg_sphere =
     (case sphere2cart ext 1 theta phi of (x, y, z) \<Rightarrow>
        (case reg_sphere of
           [] \<Rightarrow> Inl IndexError
         | v0 # _ \<Rightarrow>
             let M = vec2vec_rotmat ext v0 (x, y, z);
                 new_vertices = map (dot_MT M) reg_sphere;
                 sph = map (cart2sphere ext) new_vertices
             in (case broadcast_mn m n of
                   Inl e \<Rightarrow> Inl e
                 | Inr mn \<Rightarrow>
                     let B = real_sph_harm_grid ext mn sph
                     in if length n \<noteq> shape1 B then Inl IndexError
                        else
                          let cols = true_indices (map (\<lambda>d. d \<noteq> 0) n);
                              G_temp = \<lparr>shape0 = shape0 B, shape1 = length cols,
                                        item = (\<lambda>i j. item B i (cols ! j))\<rparr>;
                              c_temp = map (item G_temp 0) [0..<shape1 G_temp];
                              a_temp = shape0 G_temp;
                              b_temp = shape1 G_temp;
                              G = negate G_temp;
                              h = full a_temp b_temp (SH_CONST ^ 2)
                          in if b_temp = 0 then Inl CalleeError
                             else
                               Inr \<lparr>sense = Maximize, n_variables = 0,
                                    objective = (\<lambda>_. sum_list c_temp),
                                    constraints =
                                      (\<lambda>_. \<forall>i < a_temp. \<forall>j < b_temp.
                                             item G i j * x \<le> item h i j)\<rparr>)))"

text \<open>
  Lines 158-164: \<open>r\<close> is what \<^verbatim>\<open>lp_prob.solve()\<close> returns, the optimal value;
  \<open>out\<close> starts as zeros, gets \<open>SH_CONST\<close> where \<open>n == 0\<close> and \<open>r\<close> where \<open>n != 0\<close>.
\<close>

definition pos_constrained_delta ::
  "externals \<Rightarrow> int \<Rightarrow> int list \<Rightarrow> int list \<Rightarrow> real \<Rightarrow> real \<Rightarrow> vec3 list \<Rightarrow> error + real list" where
  "pos_constrained_delta ext iso' m n theta phi reg_sphere =
     (case pos_constrained_delta_problem ext m n theta phi reg_sphere of
        Inl e \<Rightarrow> Inl e
      | Inr lp_prob \<Rightarrow>
          (case cvx_solve ext lp_prob of
             None \<Rightarrow> Inl CalleeError
           | Some sol \<Rightarrow>
               let r = opt_value sol;
                   out = map (\<lambda>d. if d \<noteq> 0 then r else SH_CONST) n
               in Inr (replicate (nat iso') SH_CONST @ out)))"

text \<open>The dictionary \<^verbatim>\<open>delta_functions\<close> (lines 167-168).\<close>

definition delta_functions ::
  "string \<Rightarrow> (externals \<Rightarrow> int \<Rightarrow> int list \<Rightarrow> int list \<Rightarrow> real \<Rightarrow> real \<Rightarrow> error + real list) option" where
  "delta_functions key =
     (if key = ''basic'' then Some basic_delta
      else if key = ''positivity_constrained''
        then Some (\<lambda>ext iso' m n theta phi.
                     pos_constrained_delta ext iso' m n theta phi (default_sphere ext))
      else None)"

subsection \<open>Matrix products\<close>

definition transpose_nd :: "ndarray2 \<Rightarrow> ndarray2" where
  "transpose_nd A = \<lparr>shape0 = shape1 A, shape1 = shape0 A, item = (\<lambda>i j. item A j i)\<rparr>"

text \<open>\<^verbatim>\<open>np.dot(A, B)\<close> for two matrices, for a matrix and a vector, for a vector and a matrix.\<close>

definition dot :: "ndarray2 \<Rightarrow> ndarray2 \<Rightarrow> error + ndarray2" where
  "dot A B =
     (if shape1 A \<noteq> shape0 B then Inl (ValueError ''dot: shapes not aligned'')
      else Inr \<lparr>shape0 = shape0 A, shape1 = shape1 B,
                item = (\<lambda>i j. \<Sum>k \<leftarrow> [0..<shape1 A]. item A i k * item B k j)\<rparr>)"

definition dot_mv :: "ndarray2 \<Rightarrow> real list \<Rightarrow> error + real list" where
  "dot_mv A v =
     (if shape1 A \<noteq> length v then Inl (ValueError ''dot: shapes not aligned'')
      else Inr (map (\<lambda>i. \<Sum>k \<leftarrow> [0..<shape1 A]. item A i k * v ! k) [0..<shape0 A]))"

definition dot_vm :: "real list \<Rightarrow> ndarray2 \<Rightarrow> error + real list" where
  "dot_vm v A =
     (if length v \<noteq> shape0 A then Inl (ValueError ''dot: shapes not aligned'')
      else Inr (map (\<lambda>j. \<Sum>k \<leftarrow> [0..<shape0 A]. v ! k * item A k j) [0..<shape1 A]))"

subsection \<open>_rank (lines 296-300)\<close>

text \<open>
  The singular values, the tolerance and the threshold are float64: line 298 multiplies
  and line 299 compares in float64. \<open>tol_default\<close> is the float64 that the literal
  \<^verbatim>\<open>1e-8\<close> denotes, \<^verbatim>\<open>3022314549036573 * 2**-78\<close>.
\<close>

definition tol_default :: float64 where
  "tol_default = Finite 3022314549036573 (- 78)"

definition rank :: "externals \<Rightarrow> ndarray2 \<Rightarrow> float64 \<Rightarrow> error + nat" where
  "rank ext A tol =
     (case svd ext A of
        None \<Rightarrow> Inl CalleeError
      | Some s \<Rightarrow>
          (case s of
             [] \<Rightarrow> Inl IndexError
           | s0 # _ \<Rightarrow>
               let threshold = fmul s0 tol
               in Inr (length (filter (\<lambda>v. flt threshold v) s))))"

subsection \<open>quadprog (lines 303-321)\<close>

text \<open>
  The problem has one variable \<open>x\<close> of \<open>Q.shape[0]\<close> entries. cvxpy raises while the
  expressions are built when \<open>P\<close> is not square of that size, or when \<open>G*x\<close> or its
  comparison with \<open>H\<close> has no meaning. \<open>G*x\<close> is the matrix product when \<open>G\<close> has as many
  columns as \<open>x\<close> has entries; otherwise cvxpy takes an operand of one entry for a scalar
  and scales the other operand by it. In the comparison cvxpy stretches a side of one
  entry to the shape of the other side, and raises when the shapes differ otherwise.
\<close>

definition quad_form :: "real list \<Rightarrow> ndarray2 \<Rightarrow> real" where
  "quad_form x P = (\<Sum>i \<leftarrow> [0..<length x]. \<Sum>j \<leftarrow> [0..<length x]. x ! i * item P i j * x ! j)"

definition inner :: "real list \<Rightarrow> real list \<Rightarrow> real" where
  "inner q x = (\<Sum>i \<leftarrow> [0..<length q]. q ! i * x ! i)"

text \<open>The constraint \<^verbatim>\<open>G*x <= H\<close> of line 315, for a variable of \<open>nx\<close> entries.\<close>

definition constraint_Gx_le_H ::
  "ndarray2 \<Rightarrow> nat \<Rightarrow> real list \<Rightarrow> error + (real list \<Rightarrow> bool)" where
  "constraint_Gx_le_H G nx H =
     (if shape1 G = nx
      then
        (case bsize (shape0 G) (length H) of
           None \<Rightarrow> Inl CalleeError
         | Some rows \<Rightarrow>
             Inr (\<lambda>x. \<forall>i < rows.
                    (\<Sum>k \<leftarrow> [0..<nx]. item G (bidx (shape0 G) i) k * x ! k)
                      \<le> H ! bidx (length H) i))
      else if nx = 1
      then
        (if length H = 1
         then Inr (\<lambda>x. \<forall>i < shape0 G. \<forall>j < shape1 G. item G i j * x ! 0 \<le> H ! 0)
         else Inl CalleeError)
      else if shape0 G = 1 \<and> shape1 G = 1
      then
        (case bsize nx (length H) of
           None \<Rightarrow> Inl CalleeError
         | Some rows \<Rightarrow>
             Inr (\<lambda>x. \<forall>i < rows. item G 0 0 * x ! bidx nx i \<le> H ! bidx (length H) i))
      else Inl CalleeError)"

text \<open>Lines 312-318: the problem handed to the solver.\<close>

definition quadprog_problem ::
  "ndarray2 \<Rightarrow> real list \<Rightarrow> ndarray2 \<Rightarrow> real list \<Rightarrow> error + cvx_problem" where
  "quadprog_problem P Q G H =
     (let nx = length Q
      in if shape0 P \<noteq> nx \<or> shape1 P \<noteq> nx then Inl CalleeError
         else
           (case constraint_Gx_le_H G nx H of
              Inl e \<Rightarrow> Inl e
            | Inr constraint \<Rightarrow>
                Inr \<lparr>sense = Minimize, n_variables = nx,
                     objective = (\<lambda>x. 0.5 * quad_form x P + inner Q x),
                     constraints = constraint\<rparr>))"

text \<open>Lines 319-321: \<open>opt\<close> is the value the solver leaves in \<open>x\<close>.\<close>

definition quadprog ::
  "externals \<Rightarrow> ndarray2 \<Rightarrow> real list \<Rightarrow> ndarray2 \<Rightarrow> real list \<Rightarrow> error + real list" where
  "quadprog ext P Q G H =
     (case quadprog_problem P Q G H of
        Inl e \<Rightarrow> Inl e
      | Inr prob \<Rightarrow>
          (case cvx_solve ext prob of
             None \<Rightarrow> Inl CalleeError
           | Some sol \<Rightarrow> Inr (x_value sol)))"

subsection \<open>QpFitter (lines 324-347)\<close>

record QpFitter =
  qp_P :: ndarray2
  qp_X :: ndarray2
  qp_reg :: ndarray2
  qp_P_mat :: ndarray2
  qp_reg_mat :: ndarray2
  qp_h_mat :: "real list"

definition QpFitter_init :: "externals \<Rightarrow> ndarray2 \<Rightarrow> ndarray2 \<Rightarrow> error + QpFitter" where
  "QpFitter_init ext X reg =
     (case dot (transpose_nd X) X of
        Inl e \<Rightarrow> Inl e
      | Inr P \<Rightarrow>
          (case rank ext P tol_default of
             Inl e \<Rightarrow> Inl e
           | Inr rnk \<Rightarrow>
               if rnk \<noteq> shape0 P then Inl AssertionError
               else Inr \<lparr>qp_P = P, qp_X = X, qp_reg = reg, qp_P_mat = P,
                         qp_reg_mat = negate reg, qp_h_mat = [0]\<rparr>))"

text \<open>
  Lines 344-345 of \<^verbatim>\<open>__call__\<close>: the local \<open>Q_mat\<close>, which line 346 passes to \<open>quadprog\<close>
  as its second argument.
\<close>

definition QpFitter_Q_mat :: "QpFitter \<Rightarrow> real list \<Rightarrow> error + real list" where
  "QpFitter_Q_mat self signal =
     (case dot_mv (transpose_nd (qp_X self)) signal of
        Inl e \<Rightarrow> Inl e
      | Inr Q \<Rightarrow> Inr (map uminus Q))"

definition QpFitter_call :: "externals \<Rightarrow> QpFitter \<Rightarrow> real list \<Rightarrow> error + real list" where
  "QpFitter_call ext self signal =
     (case QpFitter_Q_mat self signal of
        Inl e \<Rightarrow> Inl e
      | Inr Q_mat \<Rightarrow> quadprog ext (qp_P_mat self) Q_mat (qp_reg_mat self) (qp_h_mat self))"

subsection \<open>MultiShellDeconvModel (lines 171-276)\<close>

record MultiShellDeconvModel =
  mdl_gtab :: GradientTable
  mdl_delta :: "real list"
  mdl_fitter :: QpFitter
  mdl_sh_order :: int
  mdl_X :: ndarray2
  mdl_sphere :: "vec3 list"
  mdl_response :: MultiShellResponse
  mdl_B_dwi :: ndarray2
  mdl_m :: "int list"
  mdl_n :: "int list"

text \<open>
  Lines 232-234: \<open>reg\<close> is zero except for an identity block of size \<open>iso\<close> and
  \<open>odf_reg\<close> below and to the right of it. \<open>iso\<close> is at least 1 here, since
  \<open>multi_tissue_basis\<close> has returned.
\<close>

definition reg_blocks :: "nat \<Rightarrow> ndarray2 \<Rightarrow> ndarray2" where
  "reg_blocks k odf_reg =
     \<lparr>shape0 = shape0 odf_reg + k, shape1 = shape1 odf_reg + k,
      item = (\<lambda>i j. if i < k \<and> j < k then (if i = j then 1 else 0)
                     else if k \<le> i \<and> k \<le> j then item odf_reg (i - k) (j - k)
                     else 0)\<rparr>"

definition MultiShellDeconvModel_init ::
  "externals \<Rightarrow> GradientTable \<Rightarrow> MultiShellResponse \<Rightarrow> vec3 list \<Rightarrow> int \<Rightarrow> string
     \<Rightarrow> error + MultiShellDeconvModel" where
  "MultiShellDeconvModel_init ext gtab response reg_sphere iso' delta_form =
     (let sh_order = msr_sh_order response
      in case multi_tissue_basis ext gtab sh_order iso' of
           Inl e \<Rightarrow> Inl e
         | Inr (B, m, n) \<Rightarrow>
             (case delta_functions delta_form of
                None \<Rightarrow> Inl KeyError
              | Some delta_f \<Rightarrow>
                  (case delta_f ext (msr_iso response) (msr_m response) (msr_n response) 0 0 of
                     Inl e \<Rightarrow> Inl e
                   | Inr delta \<Rightarrow>
                       (case inflate_response response gtab n delta of
                          Inl e \<Rightarrow> Inl e
                        | Inr multiplier_matrix \<Rightarrow>
                            (case real_sym_sh_basis ext sh_order
                                    (map (cart2sphere ext) reg_sphere) of
                               None \<Rightarrow> Inl CalleeError
                             | Some odf_reg \<Rightarrow>
                                 let reg = reg_blocks (nat iso') odf_reg
                                 in (case multiply B multiplier_matrix of
                                       Inl e \<Rightarrow> Inl e
                                     | Inr X \<Rightarrow>
                                         (case QpFitter_init ext X reg of
                                            Inl e \<Rightarrow> Inl e
                                          | Inr fitter \<Rightarrow>
                                              Inr \<lparr>mdl_gtab = gtab, mdl_delta = delta,
                                                   mdl_fitter = fitter, mdl_sh_order = sh_order,
                                                   mdl_X = X, mdl_sphere = reg_sphere,
                                                   mdl_response = response, mdl_B_dwi = B,
                                                   mdl_m = m, mdl_n = n\<rparr>)))))))"

text \<open>
  \<open>predict\<close> (lines 247-271). \<open>S0\<close> is a float, an array or \<^verbatim>\<open>None\<close>; its type is left
  open.
\<close>

definition predict ::
  "externals \<Rightarrow> MultiShellDeconvModel \<Rightarrow> real list \<Rightarrow> GradientTable option \<Rightarrow> 's option
     \<Rightarrow> error + real list" where
  "predict ext self params gtab S0 =
     (case (case gtab of
              None \<Rightarrow> Inr (mdl_X self)
            | Some gtab' \<Rightarrow>
                let iso' = msr_iso (mdl_response self)
                in (case multi_tissue_basis ext gtab' (mdl_sh_order self) iso' of
                      Inl e \<Rightarrow> Inl e
                    | Inr (B, m, n) \<Rightarrow>
                        (case inflate_response (mdl_response self) gtab' n (mdl_delta self) of
                           Inl e \<Rightarrow> Inl e
                         | Inr multiplier_matrix \<Rightarrow> multiply B multiplier_matrix))) of
        Inl e \<Rightarrow> Inl e
      | Inr X \<Rightarrow> dot_vm params (transpose_nd X))"

subsection \<open>MSDeconvFit (lines 279-293)\<close>

record MSDeconvFit =
  fit_shm_coef :: "real list"
  fit_mask :: "bool list option"
  fit_model :: MultiShellDeconvModel

definition MSDeconvFit_init ::
  "MultiShellDeconvModel \<Rightarrow> real list \<Rightarrow> bool list option \<Rightarrow> MSDeconvFit" where
  "MSDeconvFit_init model coeff msk =
     \<lparr>fit_shm_coef = coeff, fit_mask = msk, fit_model = model\<rparr>"

text \<open>
  \<open>fit\<close> (lines 273-276) on the signal of one voxel; the decorator \<^verbatim>\<open>multi_voxel_fit\<close>
  calls it once per voxel.
\<close>

definition fit :: "externals \<Rightarrow> MultiShellDeconvModel \<Rightarrow> real list \<Rightarrow> error + MSDeconvFit" where
  "fit ext self data =
     (case QpFitter_call ext (mdl_fitter self) data of
        Inl e \<Rightarrow> Inl e
      | Inr coeff \<Rightarrow> Inr (MSDeconvFit_init self coeff None))"

text \<open>
  A slice bound \<open>k\<close> on an axis of length \<open>len\<close>: a negative bound counts from the end,
  and a bound outside the axis is clipped.
\<close>

definition slice_bound :: "nat \<Rightarrow> int \<Rightarrow> nat" where
  "slice_bound len k = (if 0 \<le> k then min (nat k) len else nat (int len + k))"

definition shm_coeff :: "MSDeconvFit \<Rightarrow> real list" where
  "shm_coeff self =
     (let coef = fit_shm_coef self
      in drop (slice_bound (length coef) (msr_iso (mdl_response (fit_model self)))) coef)"

definition volume_fractions :: "MSDeconvFit \<Rightarrow> real list" where
  "volume_fractions self =
     (let coef = fit_shm_coef self;
          tissue_classes = msr_iso (mdl_response (fit_model self)) + 1
      in map (\<lambda>c. c / SH_CONST) (take (slice_bound (length coef) tissue_classes) coef))"

section \<open>Example inputs\<close>

text \<open>
  Small concrete routines and inputs, on which the theorems below are instantiated: a
  table of three measurements with the b-values 0, 1490 and 400, the first one flagged
  b0, the index lists of order 2 cut down to the two harmonics with \<open>m = 0\<close>, a response
  with one isotropic compartment on the shells 0, 1000 and 2000, and a forward operator
  that is the identity of size 3, for which the example \<open>svd\<close> returns ones.
\<close>

definition example_externals :: externals where
  "example_externals =
     \<lparr>cart2sphere = (\<lambda>v. v),
      sphere2cart = (\<lambda>r theta phi. (0, 0, r)),
      vec2vec_rotmat = (\<lambda>u v. \<lparr>shape0 = 3, shape1 = 3, item = (\<lambda>i j. if i = j then 1 else 0)\<rparr>),
      sph_harm_ind_list = (\<lambda>order. if order = 2 then Some [(0, 0), (0, 2)] else None),
      real_sph_harm = (\<lambda>m n theta phi. 1),
      gen_dirac = (\<lambda>m n theta phi. Some (map (\<lambda>_. 1) n)),
      real_sym_sh_basis = (\<lambda>order sph. None),
      default_sphere = [(0, 0, 1)],
      svd = (\<lambda>A. Some (map (\<lambda>_. Finite 1 0) [0..<shape0 A])),
      cvx_solve = (\<lambda>prob. Some \<lparr>opt_value = objective prob [], x_value = replicate (n_variables prob) 0\<rparr>)\<rparr>"

text \<open>The same routines with an \<open>svd\<close> that returns the singular values \<open>s\<close>.\<close>

definition with_svd :: "float64 list \<Rightarrow> externals" where
  "with_svd s = example_externals\<lparr>svd := (\<lambda>_. Some s)\<rparr>"

text \<open>\<open>diag(1, 1e-4)\<close>, whose Gram matrix has the singular values 1 and \<open>1e-8\<close>.\<close>

definition example_thin :: ndarray2 where
  "example_thin =
     \<lparr>shape0 = 2, shape1 = 2,
      item = (\<lambda>i j. if i = j then (if i = 0 then 1 else 1 / 10 ^ 4) else 0)\<rparr>"

definition example_gtab :: GradientTable where
  "example_gtab =
     [\<lparr>gradient = (0, 0, 0), bval = Finite 0 0, b0 = True\<rparr>,
      \<lparr>gradient = (1, 0, 0), bval = Finite 1490 0, b0 = False\<rparr>,
      \<lparr>gradient = (0, 1, 0), bval = Finite 400 0, b0 = False\<rparr>]"

definition example_response :: MultiShellResponse where
  "example_response =
     \<lparr>msr_response = \<lparr>shape0 = 3, shape1 = 3, item = (\<lambda>i j. real (10 * i + j + 1))\<rparr>,
      msr_sh_order = 2, msr_n = [0, 2], msr_m = [0, 0],
      msr_shells = [Finite 0 0, Finite 1000 0, Finite 2000 0]\<rparr>"

text \<open>\<^verbatim>\<open>np.eye(k)\<close>.\<close>

definition eye :: "nat \<Rightarrow> ndarray2" where
  "eye k = \<lparr>shape0 = k, shape1 = k, item = (\<lambda>i j. if i = j then 1 else 0)\<rparr>"

definition example_fitter :: QpFitter where
  "example_fitter =
     \<lparr>qp_P = eye 3, qp_X = eye 3, qp_reg = eye 3, qp_P_mat = eye 3,
      qp_reg_mat = negate (eye 3), qp_h_mat = [0]\<rparr>"

definition example_model :: MultiShellDeconvModel where
  "example_model =
     \<lparr>mdl_gtab = example_gtab, mdl_delta = [1, 1, 1], mdl_fitter = example_fitter,
      mdl_sh_order = 2, mdl_X = eye 3, mdl_sphere = [(0, 0, 1)],
      mdl_response = example_response, mdl_B_dwi = eye 3, mdl_m = [0, 0], mdl_n = [0, 2]\<rparr>"

section \<open>Properties\<close>


lemma true_indices_iff: "i \<in> set (true_indices flags) \<longleftrightarrow> i < length flags \<and> flags ! i"
  by (auto simp: true_indices_def)

lemma assign_zero_ix_ok:
  "length rowmask = shape0 B \<Longrightarrow> length colmask = shape1 B \<Longrightarrow>
   assign_zero_ix B rowmask colmask =
     Inr (B\<lparr>item := (\<lambda>i j. if i < shape0 B \<and> rowmask ! i \<and> j < shape1 B \<and> colmask ! j then 0 else item B i j)\<rparr>)"
  by (auto simp: assign_zero_ix_def Let_def true_indices_iff intro!: ext)

text \<open>
  Claim C5. When the number of isotropic compartments is at least 1 and the index lists
  are available, \<open>multi_tissue_basis\<close> returns a matrix with one row per measurement
  whose first \<open>iso_comp\<close> columns hold \<open>SH_CONST\<close> in every row, and in which every
  row flagged b0 is exactly zero in each spherical-harmonic column of degree \<open>n > 0\<close>.
\<close>

theorem multi_tissue_basis_b0_rows:
  assumes "1 \<le> iso_comp" and "sph_harm_ind_list ext sh_order = Some mn"
  shows "\<exists>B. multi_tissue_basis ext gtab sh_order iso_comp = Inr (B, map fst mn, map snd mn)
           \<and> shape0 B = length gtab \<and> shape1 B = nat iso_comp + length mn
           \<and> (\<forall>i < length gtab. \<forall>j < nat iso_comp. item B i j = SH_CONST)
           \<and> (\<forall>i < length gtab. b0s_mask gtab ! i \<longrightarrow>
                 (\<forall>j < length mn. 0 < snd (mn ! j) \<longrightarrow> item B i (nat iso_comp + j) = 0))"
  using assms
  by (simp add: multi_tissue_basis_def Let_def assign_zero_ix_ok concatenate1_def full_def
      real_sph_harm_grid_def b0s_mask_def gradients_def)

theorem multi_tissue_basis_b0_rows_witness:
  "\<exists>B. multi_tissue_basis example_externals example_gtab 2 1 = Inr (B, [0, 0], [0, 2])
           \<and> shape0 B = 3 \<and> shape1 B = 3
           \<and> item B 0 0 = SH_CONST \<and> item B 1 0 = SH_CONST \<and> item B 0 2 = 0"
proof -
  let ?mn = "[(0, 0), (0, 2)] :: (int \<times> int) list"
  have h1: "(1::int) \<le> 1" by simp
  have h2: "sph_harm_ind_list example_externals 2 = Some ?mn"
    by (simp add: example_externals_def)
  from multi_tissue_basis_b0_rows [OF h1 h2, of example_gtab] obtain B where
    B: "multi_tissue_basis example_externals example_gtab 2 1 = Inr (B, map fst ?mn, map snd ?mn)"
      "shape0 B = length example_gtab" "shape1 B = nat 1 + length ?mn"
    and iso: "\<forall>i < length example_gtab. \<forall>j < nat 1. item B i j = SH_CONST"
    and zero: "\<forall>i < length example_gtab. b0s_mask example_gtab ! i \<longrightarrow>
                 (\<forall>j < length ?mn. 0 < snd (?mn ! j) \<longrightarrow> item B i (nat 1 + j) = 0)"
    by blast
  from iso have "item B 0 0 = SH_CONST" "item B 1 0 = SH_CONST"
    by (simp_all add: example_gtab_def)
  moreover from zero [rule_format, of 0 1] have "item B 0 2 = 0"
    by (simp add: example_gtab_def b0s_mask_def numeral_2_eq_2)
  ultimately show ?thesis using B by (intro exI [of _ B]) (simp add: example_gtab_def)
qed

lemma multi_tissue_basis_error_iff:
  "multi_tissue_basis ext gtab sh_order iso_comp
     = Inl (ValueError ''Multi-tissue CSD requires at least 2 tissue compartments'')
   \<longleftrightarrow> iso_comp < 1"
  by (simp add: multi_tissue_basis_def Let_def assign_zero_ix_ok concatenate1_def full_def
      real_sph_harm_grid_def b0s_mask_def gradients_def split: option.splits)

text \<open>
  Claim C7. \<open>multi_tissue_basis\<close> raises its \<open>ValueError\<close> (the spec's
  InvalidConfiguration) exactly when \<open>iso_comp < 1\<close>; the constructor of
  \<open>MultiShellResponse\<close> raises its \<open>ValueError\<close> exactly when the derived
  \<open>iso = columns - sh_order // 2 - 1\<close> is below 1, and otherwise returns the object,
  whose \<open>iso\<close> is that number.
\<close>

theorem invalid_configuration:
  "(multi_tissue_basis ext gtab sh_order iso_comp
      = Inl (ValueError ''Multi-tissue CSD requires at least 2 tissue compartments''))
     = (iso_comp < 1)
   \<and> (MultiShellResponse_init response order shells
        = Inl (ValueError ''sh_order and shape of response do not agree''))
     = (int (shape1 response) - order div 2 - 1 < 1)
   \<and> (1 \<le> int (shape1 response) - order div 2 - 1 \<longrightarrow>
        (\<exists>self. MultiShellResponse_init response order shells = Inr self
           \<and> msr_iso self = int (shape1 response) - order div 2 - 1))"
  by (simp add: multi_tissue_basis_error_iff MultiShellResponse_init_def Let_def msr_iso_def)

theorem invalid_configuration_witness:
  "multi_tissue_basis example_externals example_gtab 2 0
      = Inl (ValueError ''Multi-tissue CSD requires at least 2 tissue compartments'')
   \<and> multi_tissue_basis example_externals example_gtab 2 1
      \<noteq> Inl (ValueError ''Multi-tissue CSD requires at least 2 tissue compartments'')
   \<and> MultiShellResponse_init (full 3 2 1) 2 [Finite 0 0, Finite 1000 0, Finite 2000 0]
      = Inl (ValueError ''sh_order and shape of response do not agree'')
   \<and> (\<exists>self. MultiShellResponse_init (full 3 3 1) 2 [Finite 0 0, Finite 1000 0, Finite 2000 0] = Inr self
         \<and> msr_iso self = 1)"
  using invalid_configuration [of example_externals example_gtab 2 0 "full 3 2 1" 2
      "[Finite 0 0, Finite 1000 0, Finite 2000 0]"]
    invalid_configuration [of example_externals example_gtab 2 1 "full 3 3 1" 2
      "[Finite 0 0, Finite 1000 0, Finite 2000 0]"]
  by (simp add: full_def)

lemma traverse_Inr:
  "traverse f xs = Inr ys \<longleftrightarrow> length ys = length xs \<and> (\<forall>i < length xs. f (xs ! i) = Inr (ys ! i))"
proof (induction xs arbitrary: ys)
  case Nil
  then show ?case by auto
next
  case (Cons x xs)
  show ?case
  proof (cases ys)
    case Nil
    then show ?thesis by (auto split: sum.splits)
  next
    case (Cons y ys')
    then show ?thesis using Cons.IH [of ys']
      by (auto simp: nth_Cons split: sum.splits nat.splits)
  qed
qed

lemma traverse_total:
  "(\<forall>x \<in> set xs. \<exists>y. f x = Inr y) \<Longrightarrow> \<exists>ys. traverse f xs = Inr ys"
  by (induction xs) (auto split: sum.splits)

subsection \<open>float64: order and exact cases\<close>

lemmas f64_eval = round64_def round_half_even_def bit_length.simps dyadic_less_def fge_def Let_def

lemma valof_powr: "valof (Finite m e) = real_of_int m * 2 powr real_of_int e"
proof (cases "0 \<le> e")
  case True
  then have "2 powr real_of_int e = 2 ^ nat e"
    by (simp add: powr_realpow [symmetric])
  with True show ?thesis by simp
next
  case False
  then have "2 powr real_of_int e = 1 / 2 ^ nat (- e)"
    by (simp add: powr_realpow [symmetric] powr_minus_divide [symmetric])
  with False show ?thesis by simp
qed

lemma shift_powr:
  assumes "e \<le> e1"
  shows "real_of_int (m * 2 ^ nat (e1 - e)) * 2 powr real_of_int e
           = real_of_int m * 2 powr real_of_int e1"
proof -
  have "(2::real) ^ nat (e1 - e) = 2 powr real_of_int (e1 - e)"
    using assms by (simp add: powr_realpow [symmetric])
  then have "(2::real) ^ nat (e1 - e) * 2 powr real_of_int e = 2 powr real_of_int e1"
    by (simp add: powr_add [symmetric])
  then show ?thesis by (simp add: mult.assoc)
qed

lemma dyadic_less_iff:
  "dyadic_less m1 e1 m2 e2 \<longleftrightarrow> valof (Finite m1 e1) < valof (Finite m2 e2)"
proof -
  let ?e = "min e1 e2"
  let ?a = "m1 * 2 ^ nat (e1 - ?e)" and ?b = "m2 * 2 ^ nat (e2 - ?e)"
  have pos: "0 < 2 powr real_of_int ?e" by simp
  have "?a < ?b \<longleftrightarrow> real_of_int ?a < real_of_int ?b"
    by (simp only: of_int_less_iff)
  also have "\<dots> \<longleftrightarrow> real_of_int ?a * 2 powr real_of_int ?e < real_of_int ?b * 2 powr real_of_int ?e"
    using pos by (simp only: mult_less_cancel_right_pos)
  also have "real_of_int ?a * 2 powr real_of_int ?e = valof (Finite m1 e1)"
    unfolding valof_powr by (rule shift_powr) simp
  also have "real_of_int ?b * 2 powr real_of_int ?e = valof (Finite m2 e2)"
    unfolding valof_powr by (rule shift_powr) simp
  finally show ?thesis by (simp only: dyadic_less_def Let_def)
qed

lemma flt_irrefl: "\<not> flt a a"
  by (cases a) (simp_all add: dyadic_less_iff)

lemma flt_below:
  assumes "a \<noteq> NaN" and "b \<noteq> NaN" and "c \<noteq> NaN" and "flt a b" and "\<not> flt c b"
  shows "flt a c"
  using assms by (cases a; cases b; cases c) (simp_all add: dyadic_less_iff del: valof.simps)

lemma flt_trans:
  assumes "flt a b" and "flt b c"
  shows "flt a c"
  using assms by (cases a; cases b; cases c) (simp_all add: dyadic_less_iff del: valof.simps)

lemma round64_not_NaN: "round64 M e \<noteq> NaN"
  by (simp add: round64_def Let_def)

lemma absdiff_not_NaN:
  assumes "is_finite a" and "is_finite b"
  shows "fabs (fsub a b) \<noteq> NaN"
proof -
  have "fabs x \<noteq> NaN" if "x \<noteq> NaN" for x using that by (cases x) simp_all
  with assms show ?thesis
    by (cases a; cases b) (simp_all add: round64_not_NaN Let_def)
qed

lemma bit_length_bound: "0 \<le> n \<Longrightarrow> n < 2 ^ k \<Longrightarrow> bit_length n \<le> int k"
proof (induction k arbitrary: n)
  case 0
  then have "n = 0" by simp
  then show ?case by (simp add: bit_length.simps)
next
  case (Suc k)
  show ?case
  proof (cases "n \<le> 0")
    case True
    then show ?thesis by (simp add: bit_length.simps)
  next
    case False
    from Suc.prems have "n div 2 < 2 ^ k" by simp
    moreover from Suc.prems have "0 \<le> n div 2" by simp
    ultimately have "bit_length (n div 2) \<le> int k" by (rule Suc.IH [rotated])
    with False show ?thesis by (subst bit_length.simps) simp
  qed
qed

lemma round64_exact:
  assumes "\<bar>M\<bar> < 2 ^ 53"
  shows "round64 M 0 = Finite M 0"
proof (cases "M = 0")
  case True
  then show ?thesis by (simp add: round64_def)
next
  case False
  from assms have "bit_length \<bar>M\<bar> \<le> 53"
    using bit_length_bound [of "\<bar>M\<bar>" 53] by simp
  with False show ?thesis by (simp add: round64_def Let_def)
qed

lemma absdiff_int_exact:
  assumes "\<bar>m1 - m2\<bar> < 2 ^ 53"
  shows "fabs (fsub (Finite m1 0) (Finite m2 0)) = Finite \<bar>m1 - m2\<bar> 0"
  using assms by (simp add: round64_exact)

subsection \<open>closest\<close>

lemma argmin_scan_spec:
  assumes "length ys = i" and "best < i" and "ys ! best = mp"
    and "\<forall>k < i. \<not> flt (ys ! k) mp" and "\<forall>k < best. flt mp (ys ! k)"
    and "\<forall>y \<in> set ys. y \<noteq> NaN" and "\<forall>x \<in> set xs. x \<noteq> NaN"
  shows "let r = argmin_scan best mp i xs; zs = ys @ xs
         in r < length zs \<and> (\<forall>k < length zs. \<not> flt (zs ! k) (zs ! r)) \<and> (\<forall>k < r. flt (zs ! r) (zs ! k))"
  using assms
proof (induction xs arbitrary: best mp i ys)
  case Nil
  then show ?case by (simp add: Let_def)
next
  case (Cons x xs)
  from Cons.prems have mp: "mp \<noteq> NaN" and x: "x \<noteq> NaN" by auto
  have yk: "ys ! k \<noteq> NaN" if "k < i" for k
    using that Cons.prems by simp
  show ?case
  proof (cases "flt x mp")
    case True
    have "let r = argmin_scan i x (Suc i) xs; zs = (ys @ [x]) @ xs
          in r < length zs \<and> (\<forall>k < length zs. \<not> flt (zs ! k) (zs ! r)) \<and> (\<forall>k < r. flt (zs ! r) (zs ! k))"
    proof (rule Cons.IH)
      show "length (ys @ [x]) = Suc i" using Cons.prems by simp
      show "i < Suc i" by simp
      show "(ys @ [x]) ! i = x" using Cons.prems by (simp add: nth_append)
      have not_below: "\<not> flt (ys ! k) x" if "k < i" for k
      proof
        assume "flt (ys ! k) x"
        then have "flt (ys ! k) mp" using True by (rule flt_trans)
        with that Cons.prems show False by simp
      qed
      show "\<forall>k < Suc i. \<not> flt ((ys @ [x]) ! k) x"
        using Cons.prems(1) not_below by (auto simp: nth_append less_Suc_eq flt_irrefl)
      have below: "flt x (ys ! k)" if "k < i" for k
      proof (rule flt_below [OF x mp _ True])
        show "ys ! k \<noteq> NaN" using that by (rule yk)
        show "\<not> flt (ys ! k) mp" using that Cons.prems by simp
      qed
      show "\<forall>k < i. flt x ((ys @ [x]) ! k)"
        using Cons.prems(1) below by (auto simp: nth_append)
      show "\<forall>y \<in> set (ys @ [x]). y \<noteq> NaN" using Cons.prems by auto
      show "\<forall>x \<in> set xs. x \<noteq> NaN" using Cons.prems by auto
    qed
    with True mp x show ?thesis by (simp add: fge_def)
  next
    case False
    have "let r = argmin_scan best mp (Suc i) xs; zs = (ys @ [x]) @ xs
          in r < length zs \<and> (\<forall>k < length zs. \<not> flt (zs ! k) (zs ! r)) \<and> (\<forall>k < r. flt (zs ! r) (zs ! k))"
    proof (rule Cons.IH)
      show "length (ys @ [x]) = Suc i" using Cons.prems by simp
      show "best < Suc i" using Cons.prems by simp
      show "(ys @ [x]) ! best = mp" using Cons.prems by (simp add: nth_append)
      show "\<forall>k < Suc i. \<not> flt ((ys @ [x]) ! k) mp"
        using Cons.prems False by (auto simp: nth_append less_Suc_eq)
      show "\<forall>k < best. flt mp ((ys @ [x]) ! k)"
        using Cons.prems by (auto simp: nth_append)
      show "\<forall>y \<in> set (ys @ [x]). y \<noteq> NaN" using Cons.prems by auto
      show "\<forall>x \<in> set xs. x \<noteq> NaN" using Cons.prems by auto
    qed
    with False mp x show ?thesis by (simp add: fge_def)
  qed
qed

lemma argmin_Inr:
  assumes "argmin xs = Inr r" and "\<forall>x \<in> set xs. x \<noteq> NaN"
  shows "r < length xs \<and> (\<forall>k < length xs. \<not> flt (xs ! k) (xs ! r)) \<and> (\<forall>k < r. flt (xs ! r) (xs ! k))"
proof (cases xs)
  case Nil
  with assms show ?thesis by (simp add: argmin_def)
next
  case (Cons x rest)
  with assms have r: "r = argmin_scan 0 x 1 rest" by (simp add: argmin_def)
  have "let r = argmin_scan 0 x (Suc 0) rest; zs = [x] @ rest
        in r < length zs \<and> (\<forall>k < length zs. \<not> flt (zs ! k) (zs ! r)) \<and> (\<forall>k < r. flt (zs ! r) (zs ! k))"
    using assms(2) Cons by (intro argmin_scan_spec) (simp_all add: flt_irrefl)
  with r Cons show ?thesis by (simp add: Let_def)
qed

lemma argmin_total: "xs \<noteq> [] \<Longrightarrow> \<exists>r. argmin xs = Inr r"
  by (cases xs) (simp_all add: argmin_def)

lemma traverse_Inl:
  "traverse f xs = Inl e \<Longrightarrow> \<exists>x \<in> set xs. f x = Inl e"
  by (induction xs) (auto split: sum.splits)

lemma closest_length:
  "closest shells bs = Inr b_idx \<Longrightarrow> length b_idx = length bs"
  by (simp add: closest_def traverse_Inr split: if_splits)

lemma closest_nth:
  assumes "closest shells bs = Inr b_idx" and j: "j < length bs"
    and fin: "\<forall>h \<in> set shells. is_finite h" "is_finite (bs ! j)"
  shows "b_idx ! j < length shells
         \<and> (\<forall>k < length shells.
               \<not> flt (fabs (fsub (shells ! k) (bs ! j))) (fabs (fsub (shells ! (b_idx ! j)) (bs ! j))))
         \<and> (\<forall>k < b_idx ! j.
               flt (fabs (fsub (shells ! (b_idx ! j)) (bs ! j))) (fabs (fsub (shells ! k) (bs ! j))))"
proof -
  let ?d = "map (\<lambda>h. fabs (fsub h (bs ! j))) shells"
  from assms have am: "argmin ?d = Inr (b_idx ! j)"
    by (simp add: closest_def traverse_Inr split: if_splits)
  from fin have "\<forall>x \<in> set ?d. x \<noteq> NaN"
    by (auto simp: absdiff_not_NaN)
  from argmin_Inr [OF am this]
  have r: "b_idx ! j < length ?d"
    and le: "\<And>k. k < length ?d \<Longrightarrow> \<not> flt (?d ! k) (?d ! (b_idx ! j))"
    and lt: "\<And>k. k < b_idx ! j \<Longrightarrow> flt (?d ! (b_idx ! j)) (?d ! k)"
    by blast+
  from r have r': "b_idx ! j < length shells" by simp
  have "\<not> flt (fabs (fsub (shells ! k) (bs ! j))) (fabs (fsub (shells ! (b_idx ! j)) (bs ! j)))"
    if "k < length shells" for k
    using le [of k] that r' by simp
  moreover have "flt (fabs (fsub (shells ! (b_idx ! j)) (bs ! j))) (fabs (fsub (shells ! k) (bs ! j)))"
    if "k < b_idx ! j" for k
    using lt [of k] that r' by simp
  ultimately show ?thesis using r' by blast
qed

lemma closest_total: "shells \<noteq> [] \<Longrightarrow> \<exists>b_idx. closest shells bs = Inr b_idx"
  by (simp add: closest_def traverse_total argmin_total)

lemma closest_Inl:
  "closest shells bs = Inl e \<Longrightarrow> e = ValueError ''attempt to get argmin of an empty sequence''"
  by (cases shells) (auto simp: closest_def argmin_def dest!: traverse_Inl)

lemma traverse_np_index_nat:
  assumes "traverse (np_index len) (map int ks) = Inr rs"
  shows "rs = ks"
proof (rule nth_equalityI)
  from assms show len: "length rs = length ks" by (simp add: traverse_Inr)
  fix i assume "i < length rs"
  with len assms have "np_index len (int (ks ! i)) = Inr (rs ! i)"
    by (simp add: traverse_Inr)
  then show "rs ! i = ks ! i" by (simp add: np_index_def split: if_splits)
qed

lemma take_ix_Inl: "take_ix A rs cs = Inl e \<Longrightarrow> e = IndexError"
  by (auto simp: take_ix_def np_index_def split: sum.splits if_splits dest!: traverse_Inl)

lemma take_ix_Inr:
  assumes "take_ix A (map int ks) cs = Inr M"
  shows "shape0 M = length ks \<and> shape1 M = length cs
         \<and> (\<forall>i < shape0 M. \<forall>j < shape1 M.
               \<exists>c. np_index (shape1 A) (cs ! j) = Inr c \<and> item M i j = item A (ks ! i) c)"
proof (cases "ks = [] \<or> cs = []")
  case True
  with assms have "M = \<lparr>shape0 = length ks, shape1 = length cs, item = (\<lambda>i j. 0)\<rparr>"
    by (auto simp: take_ix_def)
  with True show ?thesis by auto
next
  case False
  with assms obtain rs cs' where
    rs: "traverse (np_index (shape0 A)) (map int ks) = Inr rs"
    and cs': "traverse (np_index (shape1 A)) cs = Inr cs'"
    and M: "M = \<lparr>shape0 = length rs, shape1 = length cs',
                 item = (\<lambda>i j. item A (rs ! i) (cs' ! j))\<rparr>"
    by (auto simp: take_ix_def split: sum.splits)
  from rs have "rs = ks" by (rule traverse_np_index_nat)
  moreover from cs' have "length cs' = length cs"
    and "\<And>j. j < length cs \<Longrightarrow> np_index (shape1 A) (cs ! j) = Inr (cs' ! j)"
    by (simp_all add: traverse_Inr)
  ultimately show ?thesis using M by simp
qed

lemma inflate_response_Inr:
  assumes "inflate_response response gtab n delta = Inr M"
  shows "\<exists>b_idx n_idx kernal.
           closest (msr_shells response) (bvals gtab) = Inr b_idx
           \<and> n_idx_of (msr_iso response) n = Inr n_idx
           \<and> divide_rows (msr_response response) delta = Inr kernal
           \<and> shape0 M = length gtab \<and> shape1 M = length n_idx
           \<and> (\<forall>i < shape0 M. \<forall>j < shape1 M.
                 \<exists>c. np_index (shape1 kernal) (n_idx ! j) = Inr c
                     \<and> item M i j = item kernal (b_idx ! i) c)"
proof -
  from assms obtain n_idx b_idx kernal where
    n: "n_idx_of (msr_iso response) n = Inr n_idx"
    and b: "closest (msr_shells response) (bvals gtab) = Inr b_idx"
    and k: "divide_rows (msr_response response) delta = Inr kernal"
    and t: "take_ix kernal (map int b_idx) n_idx = Inr M"
    by (auto simp: inflate_response_def split: if_splits sum.splits)
  from b have len: "length b_idx = length gtab"
    by (simp add: closest_length bvals_def)
  from take_ix_Inr [OF t] len n b k show ?thesis by auto
qed


text \<open>
  Claim C4, amended. \<open>closest\<close> returns, when there is at least one shell, one shell
  index per b-value. For finite shells and b-values, no shell has a smaller absolute
  difference to the b-value than the shell at that index, and every shell of lower index
  has a larger one, the differences being the float64 values that line 64 computes and
  the comparisons those of float64, which order finite values as their exact values are
  ordered. For integer b-values whose difference is below \<^verbatim>\<open>2**53\<close> the computed
  difference is the exact one. Of what \<open>_inflate_response\<close> returns, the entry in row \<open>i\<close>
  and column \<open>j\<close> is read from row \<open>b_idx ! i\<close> of the kernel, at the column that
  \<open>n_idx ! j\<close> names. For the shells 0, 1000, 2000 and the b-value 1490 the index is 1.
\<close>

theorem nearest_shell_selection:
  "(shells \<noteq> [] \<longrightarrow> (\<exists>b_idx. closest shells bs = Inr b_idx))
   \<and> (closest shells bs = Inr b_idx \<and> (\<forall>h \<in> set shells. is_finite h) \<and> (\<forall>b \<in> set bs. is_finite b)
        \<longrightarrow> length b_idx = length bs
          \<and> (\<forall>j < length bs.
                b_idx ! j < length shells
                \<and> (\<forall>k < length shells.
                      \<not> flt (fabs (fsub (shells ! k) (bs ! j)))
                            (fabs (fsub (shells ! (b_idx ! j)) (bs ! j))))
                \<and> (\<forall>k < b_idx ! j.
                      flt (fabs (fsub (shells ! (b_idx ! j)) (bs ! j)))
                          (fabs (fsub (shells ! k) (bs ! j))))))
   \<and> flt (Finite m1 e1) (Finite m2 e2) = (valof (Finite m1 e1) < valof (Finite m2 e2))
   \<and> (\<bar>k1 - k2\<bar> < 2 ^ 53 \<longrightarrow>
        fabs (fsub (Finite k1 0) (Finite k2 0)) = Finite \<bar>k1 - k2\<bar> 0
        \<and> valof (Finite \<bar>k1 - k2\<bar> 0) = \<bar>valof (Finite k1 0) - valof (Finite k2 0)\<bar>)
   \<and> (inflate_response response gtab n delta = Inr M \<longrightarrow>
        (\<exists>b_idx n_idx kernal.
           closest (msr_shells response) (bvals gtab) = Inr b_idx
           \<and> n_idx_of (msr_iso response) n = Inr n_idx
           \<and> divide_rows (msr_response response) delta = Inr kernal
           \<and> shape0 M = length gtab \<and> shape1 M = length n_idx
           \<and> (\<forall>i < shape0 M. \<forall>j < shape1 M.
                 \<exists>c. np_index (shape1 kernal) (n_idx ! j) = Inr c
                     \<and> item M i j = item kernal (b_idx ! i) c)))
   \<and> closest [Finite 0 0, Finite 1000 0, Finite 2000 0] [Finite 1490 0] = Inr [1]"
proof (intro conjI impI)
  show "closest [Finite 0 0, Finite 1000 0, Finite 2000 0] [Finite 1490 0] = Inr [1]"
    by (simp add: closest_def argmin_def f64_eval)
next
  assume "shells \<noteq> []"
  then show "\<exists>b_idx. closest shells bs = Inr b_idx" by (rule closest_total)
next
  assume "closest shells bs = Inr b_idx \<and> (\<forall>h \<in> set shells. is_finite h) \<and> (\<forall>b \<in> set bs. is_finite b)"
  then show "length b_idx = length bs" using closest_length by blast
next
  assume a: "closest shells bs = Inr b_idx \<and> (\<forall>h \<in> set shells. is_finite h) \<and> (\<forall>b \<in> set bs. is_finite b)"
  show "\<forall>j < length bs.
          b_idx ! j < length shells
          \<and> (\<forall>k < length shells.
                \<not> flt (fabs (fsub (shells ! k) (bs ! j)))
                      (fabs (fsub (shells ! (b_idx ! j)) (bs ! j))))
          \<and> (\<forall>k < b_idx ! j.
                flt (fabs (fsub (shells ! (b_idx ! j)) (bs ! j)))
                    (fabs (fsub (shells ! k) (bs ! j))))"
  proof (intro allI impI)
    fix j assume j: "j < length bs"
    with a have "is_finite (bs ! j)" by simp
    with a j show "b_idx ! j < length shells
          \<and> (\<forall>k < length shells.
                \<not> flt (fabs (fsub (shells ! k) (bs ! j)))
                      (fabs (fsub (shells ! (b_idx ! j)) (bs ! j))))
          \<and> (\<forall>k < b_idx ! j.
                flt (fabs (fsub (shells ! (b_idx ! j)) (bs ! j)))
                    (fabs (fsub (shells ! k) (bs ! j))))"
      by (intro closest_nth) simp_all
  qed
next
  show "flt (Finite m1 e1) (Finite m2 e2) = (valof (Finite m1 e1) < valof (Finite m2 e2))"
    by (simp only: flt.simps dyadic_less_iff)
next
  assume "\<bar>k1 - k2\<bar> < 2 ^ 53"
  then show "fabs (fsub (Finite k1 0) (Finite k2 0)) = Finite \<bar>k1 - k2\<bar> 0"
    by (rule absdiff_int_exact)
next
  show "valof (Finite \<bar>k1 - k2\<bar> 0) = \<bar>valof (Finite k1 0) - valof (Finite k2 0)\<bar>"
    by simp
next
  assume "inflate_response response gtab n delta = Inr M"
  then show "\<exists>b_idx n_idx kernal.
           closest (msr_shells response) (bvals gtab) = Inr b_idx
           \<and> n_idx_of (msr_iso response) n = Inr n_idx
           \<and> divide_rows (msr_response response) delta = Inr kernal
           \<and> shape0 M = length gtab \<and> shape1 M = length n_idx
           \<and> (\<forall>i < shape0 M. \<forall>j < shape1 M.
                 \<exists>c. np_index (shape1 kernal) (n_idx ! j) = Inr c
                     \<and> item M i j = item kernal (b_idx ! i) c)"
    by (rule inflate_response_Inr)
qed

lemma closest_example_lists:
  "closest [Finite 0 0, Finite 1000 0, Finite 2000 0] [Finite 0 0, Finite 1490 0, Finite 400 0]
     = Inr [0, 1, 0]"
  by (simp add: closest_def argmin_def f64_eval)

lemma closest_example:
  "closest (msr_shells example_response) (bvals example_gtab) = Inr [0, 1, 0]"
  by (simp add: closest_example_lists example_response_def example_gtab_def bvals_def)

lemma inflate_response_example:
  "\<exists>M. inflate_response example_response example_gtab [0, 2] [1, 1, 1] = Inr M"
  by (simp add: inflate_response_def closest_example_lists example_response_def
      example_gtab_def bvals_def msr_iso_def n_idx_of_def arange_def divide_rows_def
      bsize_def take_ix_def np_index_def upt_rec)

theorem nearest_shell_selection_witness:
  "closest [Finite 0 0, Finite 1000 0, Finite 2000 0] [Finite 1490 0, Finite 400 0] = Inr [1, 0]
   \<and> fabs (fsub (Finite 1000 0) (Finite 1490 0)) = Finite 490 0
   \<and> \<not> flt (fabs (fsub (Finite 2000 0) (Finite 1490 0))) (fabs (fsub (Finite 1000 0) (Finite 1490 0)))
   \<and> flt (fabs (fsub (Finite 1000 0) (Finite 1490 0))) (fabs (fsub (Finite 0 0) (Finite 1490 0)))
   \<and> (\<exists>M. inflate_response example_response example_gtab [0, 2] [1, 1, 1] = Inr M
         \<and> shape0 M = 3 \<and> shape1 M = 3 \<and> item M 1 2 = 13 \<and> item M 2 0 = 1)"
proof -
  let ?shells = "[Finite 0 0, Finite 1000 0, Finite 2000 0]"
  let ?bs = "[Finite 1490 0, Finite 400 0]"
  have c: "closest ?shells ?bs = Inr [1, 0]"
    by (simp add: closest_def argmin_def f64_eval)
  obtain M where M: "inflate_response example_response example_gtab [0, 2] [1, 1, 1] = Inr M"
    using inflate_response_example by blast
  note inst = nearest_shell_selection [of ?shells ?bs "[1, 0]" 0 0 0 0 1000 1490
      example_response example_gtab "[0, 2]" "[1, 1, 1]" M]
  have fin: "closest ?shells ?bs = Inr [1, 0] \<and> (\<forall>h \<in> set ?shells. is_finite h)
      \<and> (\<forall>b \<in> set ?bs. is_finite b)"
    using c by simp
  note sel = inst [THEN conjunct2, THEN conjunct1, rule_format, OF fin, THEN conjunct2,
      rule_format, of 0]
  have nearest: "\<not> flt (fabs (fsub (Finite 2000 0) (Finite 1490 0)))
                       (fabs (fsub (Finite 1000 0) (Finite 1490 0)))"
    using sel [THEN conjunct2, THEN conjunct1, rule_format, of 2] by simp
  have first: "flt (fabs (fsub (Finite 1000 0) (Finite 1490 0)))
                   (fabs (fsub (Finite 0 0) (Finite 1490 0)))"
    using sel [THEN conjunct2, THEN conjunct2, rule_format, of 0] by simp
  have exact: "fabs (fsub (Finite 1000 0) (Finite 1490 0)) = Finite 490 0"
    using inst by simp
  from inst M obtain b_idx n_idx kernal where
    b: "closest (msr_shells example_response) (bvals example_gtab) = Inr b_idx"
    and n: "n_idx_of (msr_iso example_response) [0, 2] = Inr n_idx"
    and k: "divide_rows (msr_response example_response) [1, 1, 1] = Inr kernal"
    and sh: "shape0 M = length example_gtab" "shape1 M = length n_idx"
    and entries: "\<forall>i < shape0 M. \<forall>j < shape1 M.
                 \<exists>c. np_index (shape1 kernal) (n_idx ! j) = Inr c
                     \<and> item M i j = item kernal (b_idx ! i) c"
    by blast
  from b have b_idx: "b_idx = [0, 1, 0]" by (simp add: closest_example)
  from n have n_idx: "n_idx = [0, 1, 2]"
    by (auto simp: n_idx_of_def example_response_def msr_iso_def arange_def upt_rec)
  from k have kernal: "kernal = \<lparr>shape0 = 3, shape1 = 3, item = (\<lambda>i j. real (10 * i + j + 1) / [1, 1, 1] ! j)\<rparr>"
    by (auto simp: divide_rows_def example_response_def bsize_def bidx_def)
  from sh n_idx have sh': "shape0 M = 3" "shape1 M = 3" by (simp_all add: example_gtab_def)
  from entries [rule_format, of 1 2] sh' have "item M 1 2 = 13"
    by (auto simp: b_idx n_idx kernal np_index_def)
  moreover from entries [rule_format, of 2 0] sh' have "item M 2 0 = 1"
    by (auto simp: b_idx n_idx kernal np_index_def)
  ultimately show ?thesis using c exact nearest first M sh' by blast
qed

text \<open>
  Claim C4 as stated fails. The shells are the float64 values written 0.2 and 1090.8 and
  the b-value is 545.5: both float64 differences round to the same value, so the first
  shell is selected, and the exact difference of the second shell is the smaller one.
\<close>

theorem nearest_shell_counterexample:
  "closest [Finite 3602879701896397 (- 54), Finite 4797389134312243 (- 42)] [Finite 1091 (- 1)]
     = Inr [0]
   \<and> \<bar>valof (Finite 4797389134312243 (- 42)) - valof (Finite 1091 (- 1))\<bar>
       < \<bar>valof (Finite 3602879701896397 (- 54)) - valof (Finite 1091 (- 1))\<bar>"
  by (simp add: closest_def argmin_def f64_eval)

lemma n_idx_of_Inl:
  "n_idx_of k n = Inl e \<Longrightarrow> e \<noteq> ValueError ''Response and n do not match''"
  by (auto simp: n_idx_of_def split: if_splits)

lemma divide_rows_Inl:
  "divide_rows A d = Inl e \<Longrightarrow> e \<noteq> ValueError ''Response and n do not match''"
  by (auto simp: divide_rows_def split: option.splits)

lemma inflate_response_after_check:
  assumes "\<forall>d \<in> set n. d mod 2 = 0" and "n \<noteq> []" and "Max (set n) div 2 < msr_sh_order response"
  shows "inflate_response response gtab n delta \<noteq> Inl (ValueError ''Response and n do not match'')"
proof
  assume a: "inflate_response response gtab n delta = Inl (ValueError ''Response and n do not match'')"
  let ?e = "ValueError ''Response and n do not match''"
  from a assms consider
      "n_idx_of (msr_iso response) n = Inl ?e"
    | "closest (msr_shells response) (bvals gtab) = Inl ?e"
    | "divide_rows (msr_response response) delta = Inl ?e"
    | kernal b_idx n_idx where "take_ix kernal (map int b_idx) n_idx = Inl ?e"
    by (auto simp: inflate_response_def split: sum.splits if_splits)
  then show False
  proof cases
    case 1 then show ?thesis using n_idx_of_Inl by blast
  next
    case 2 then show ?thesis by (auto dest: closest_Inl)
  next
    case 3 then show ?thesis using divide_rows_Inl by blast
  next
    case 4 then show ?thesis by (auto dest: take_ix_Inl)
  qed
qed

lemma even_max_half:
  assumes "\<forall>d \<in> set n. d mod 2 = 0" and "n \<noteq> []"
  shows "(real_of_int k \<le> real_of_int (Max (set n)) / 2) = (k \<le> Max (set n) div 2)"
proof -
  from assms have "Max (set n) \<in> set n" by simp
  with assms have "Max (set n) mod 2 = 0" by blast
  then obtain q where q: "Max (set n) = 2 * q" by (auto simp: mod_eq_0_iff_dvd)
  then show ?thesis by simp
qed

text \<open>
  Claim C6. For a non-empty array \<open>n\<close> of target degrees, \<open>_inflate_response\<close> raises
  the \<open>ValueError\<close> "Response and n do not match" (the spec's shape mismatch) exactly
  when some degree is odd or \<open>max(n) / 2 \<ge> response.sh_order\<close>; otherwise whatever it
  does, it does not raise that error.
\<close>

theorem inflate_response_shape_mismatch:
  assumes "n \<noteq> []"
  shows "(inflate_response response gtab n delta = Inl (ValueError ''Response and n do not match''))
         = ((\<exists>d \<in> set n. odd d)
            \<or> real_of_int (msr_sh_order response) \<le> real_of_int (Max (set n)) / 2)"
proof (cases "\<exists>d \<in> set n. d mod 2 \<noteq> 0")
  case True
  then have "\<exists>d \<in> set n. odd d" by (auto simp: odd_iff_mod_2_eq_one)
  with True show ?thesis by (simp add: inflate_response_def)
next
  case False
  then have ev: "\<forall>d \<in> set n. d mod 2 = 0" by simp
  then have no_odd: "\<not> (\<exists>d \<in> set n. odd d)" by (auto simp: even_iff_mod_2_eq_zero)
  show ?thesis
  proof (cases "msr_sh_order response \<le> Max (set n) div 2")
    case True
    with ev assms
    have "inflate_response response gtab n delta = Inl (ValueError ''Response and n do not match'')"
      by (simp add: inflate_response_def)
    moreover from True
    have "real_of_int (msr_sh_order response) \<le> real_of_int (Max (set n)) / 2"
      unfolding even_max_half [OF ev assms] .
    ultimately show ?thesis by blast
  next
    case False
    then have "Max (set n) div 2 < msr_sh_order response" by simp
    from inflate_response_after_check [OF ev assms this]
    have "inflate_response response gtab n delta \<noteq> Inl (ValueError ''Response and n do not match'')" .
    moreover from False
    have "\<not> real_of_int (msr_sh_order response) \<le> real_of_int (Max (set n)) / 2"
      unfolding even_max_half [OF ev assms] .
    ultimately show ?thesis using no_odd by blast
  qed
qed

theorem inflate_response_shape_mismatch_witness:
  "inflate_response example_response example_gtab [0, 3] [1, 1, 1]
     = Inl (ValueError ''Response and n do not match'')
   \<and> inflate_response example_response example_gtab [0, 2, 4] [1, 1, 1]
     = Inl (ValueError ''Response and n do not match'')
   \<and> inflate_response example_response example_gtab [0, 2] [1, 1, 1]
     \<noteq> Inl (ValueError ''Response and n do not match'')"
  using inflate_response_shape_mismatch [of "[0, 3]" example_response example_gtab "[1, 1, 1]"]
    inflate_response_shape_mismatch [of "[0, 2, 4]" example_response example_gtab "[1, 1, 1]"]
    inflate_response_shape_mismatch [of "[0, 2]" example_response example_gtab "[1, 1, 1]"]
  by (simp add: example_response_def)

text \<open>
  Claim C8. For a fit whose model's response has \<open>iso \<ge> 0\<close> (the constructor of the
  response guarantees \<open>iso \<ge> 1\<close>), \<open>shm_coeff\<close> is the coefficient vector from index
  \<open>iso\<close> onward and \<open>volume_fractions\<close> is its first \<open>iso + 1\<close> entries, each divided
  by \<open>SH_CONST\<close>.
\<close>

theorem fit_result_partition:
  assumes "0 \<le> msr_iso (mdl_response (fit_model self))"
  shows "shm_coeff self = drop (nat (msr_iso (mdl_response (fit_model self)))) (fit_shm_coef self)
         \<and> volume_fractions self
             = map (\<lambda>c. c / SH_CONST)
                 (take (nat (msr_iso (mdl_response (fit_model self))) + 1) (fit_shm_coef self))"
  using assms
  by (simp add: shm_coeff_def volume_fractions_def slice_bound_def Let_def min_def nat_add_distrib)

theorem fit_result_partition_witness:
  "shm_coeff (MSDeconvFit_init example_model [5, 6, 7] None) = [6, 7]
   \<and> volume_fractions (MSDeconvFit_init example_model [5, 6, 7] None)
       = [5 / SH_CONST, 6 / SH_CONST]"
  using fit_result_partition [of "MSDeconvFit_init example_model [5, 6, 7] None"]
  by (simp add: MSDeconvFit_init_def example_model_def example_response_def msr_iso_def)

text \<open>
  Claim C9. \<open>predict\<close> returns the same result for any two values of \<open>S0\<close>, whatever
  the coefficients and the gradient table argument.
\<close>

theorem predict_independent_of_S0:
  "predict ext self params gtab S0 = predict ext self params gtab S0'"
  by (simp add: predict_def)

theorem predict_independent_of_S0_witness:
  "predict example_externals example_model [3, 4, 5] None (None :: real option)
     = predict example_externals example_model [3, 4, 5] None (Some 100)
   \<and> predict example_externals example_model [3, 4, 5] None (Some (100::real)) = Inr [3, 4, 5]"
  using predict_independent_of_S0 [of example_externals example_model "[3, 4, 5]" None None "Some (100::real)"]
  by (simp add: predict_def example_model_def dot_vm_def transpose_nd_def eye_def upt_rec)

text \<open>
  Claim C10. When the problem of \<open>_pos_constrained_delta\<close> is built and the solver
  answers, the function returns a vector of \<open>iso + len(n)\<close> entries in which every entry
  at a position with \<open>n \<noteq> 0\<close> is the one scalar the solver returned, its optimal value.
\<close>

theorem pos_constrained_delta_degrees:
  assumes "pos_constrained_delta_problem ext m n theta phi reg_sphere = Inr lp_prob"
    and "cvx_solve ext lp_prob = Some sol"
  shows "\<exists>out. pos_constrained_delta ext iso' m n theta phi reg_sphere = Inr out
           \<and> length out = nat iso' + length n
           \<and> (\<forall>j < length n. n ! j \<noteq> 0 \<longrightarrow> out ! (nat iso' + j) = opt_value sol)"
  using assms by (simp add: pos_constrained_delta_def Let_def nth_append)

theorem pos_constrained_delta_degrees_witness:
  "\<exists>out. pos_constrained_delta example_externals 1 [0, 0, 1] [0, 2, 2] 0 0 [(0, 0, 1), (1, 0, 0)]
            = Inr out
         \<and> length out = 4 \<and> out ! 2 = out ! 3"
proof -
  obtain lp where lp: "pos_constrained_delta_problem example_externals [0, 0, 1] [0, 2, 2] 0 0
      [(0, 0, 1), (1, 0, 0)] = Inr lp"
    by (simp add: pos_constrained_delta_problem_def example_externals_def broadcast_mn_def
        bsize_def real_sph_harm_grid_def true_indices_def Let_def upt_rec)
  have "cvx_solve example_externals lp
          = Some \<lparr>opt_value = objective lp [], x_value = replicate (n_variables lp) 0\<rparr>"
    by (simp add: example_externals_def)
  from pos_constrained_delta_degrees [OF lp this, of 1] obtain out where
    out: "pos_constrained_delta example_externals 1 [0, 0, 1] [0, 2, 2] 0 0 [(0, 0, 1), (1, 0, 0)]
            = Inr out"
      "length out = nat 1 + length [0, 2, 2 :: int]"
    and same: "\<forall>j < length [0, 2, 2 :: int]. [0, 2, 2 :: int] ! j \<noteq> 0
                 \<longrightarrow> out ! (nat 1 + j) = objective lp []"
    by auto
  from same [rule_format, of 1] same [rule_format, of 2] have "out ! 2 = out ! 3"
    by (simp add: numeral_2_eq_2 numeral_3_eq_3)
  with out show ?thesis by (intro exI [of _ out]) simp
qed

text \<open>
  Claim C2, as the code has it. The problem that \<open>_pos_constrained_delta\<close> hands to the
  solver has no variable: its objective, the sum of the sampled harmonics at the
  reference direction, and its constraint take the same value at every assignment. It is
  not a program over spherical-harmonic coefficients.
\<close>

theorem pos_constrained_delta_problem_has_no_variable:
  assumes "pos_constrained_delta_problem ext m n theta phi reg_sphere = Inr lp"
  shows "n_variables lp = 0
         \<and> (\<forall>v w. objective lp v = objective lp w)
         \<and> (\<forall>v w. constraints lp v = constraints lp w)"
  using assms
  by (auto simp: pos_constrained_delta_problem_def Let_def
      split: prod.splits list.splits sum.splits if_splits)

theorem pos_constrained_delta_problem_has_no_variable_witness:
  "\<exists>lp. pos_constrained_delta_problem example_externals [0, 0] [0, 2] 0 0 [(0, 0, 1), (1, 0, 0)]
           = Inr lp
        \<and> n_variables lp = 0 \<and> objective lp [0] = objective lp [5]
        \<and> constraints lp [0] = constraints lp [5]"
proof -
  obtain lp where lp: "pos_constrained_delta_problem example_externals [0, 0] [0, 2] 0 0
      [(0, 0, 1), (1, 0, 0)] = Inr lp"
    by (simp add: pos_constrained_delta_problem_def example_externals_def broadcast_mn_def
        bsize_def real_sph_harm_grid_def true_indices_def Let_def upt_rec)
  from pos_constrained_delta_problem_has_no_variable [OF lp] lp show ?thesis by blast
qed


lemma gram:
  "dot (transpose_nd X) X
     = Inr \<lparr>shape0 = shape1 X, shape1 = shape1 X,
            item = (\<lambda>i j. \<Sum>k \<leftarrow> [0..<shape0 X]. item X k i * item X k j)\<rparr>"
  by (simp add: dot_def transpose_nd_def)

lemma hd_not_below:
  assumes "sorted_wrt (\<lambda>a b. \<not> flt a b) s" and "v \<in> set s"
  shows "\<not> flt (hd s) v"
  using assms by (cases s) (auto simp: flt_irrefl)

lemma rank_counts:
  assumes "svd ext A = Some s" and "s \<noteq> []"
  shows "rank ext A tol = Inr (card {i. i < length s \<and> flt (fmul (hd s) tol) (s ! i)})"
proof -
  from assms have "rank ext A tol = Inr (length (filter (\<lambda>v. flt (fmul (hd s) tol) v) s))"
    by (cases s) (simp_all add: rank_def)
  also have "length (filter (\<lambda>v. flt (fmul (hd s) tol) v) s)
               = card {i. i < length s \<and> flt (fmul (hd s) tol) (s ! i)}"
    by (rule length_filter_conv_card)
  finally show ?thesis .
qed

text \<open>
  Claim C3, amended. With \<open>P = X\<^sup>T X\<close> and singular values \<open>s\<close> of \<open>P\<close> in descending
  order, the first one is the largest, and \<open>_rank\<close> counts the singular values that are,
  in float64, strictly above the float64 product of the first one and the float64
  \<open>1e-8\<close>; the constructor of \<open>QpFitter\<close> fails (the assertion of line 336) when that
  count differs from \<open>P.shape[0]\<close> and returns the fitter when it is equal.
\<close>

theorem qp_fitter_rank_check:
  assumes "dot (transpose_nd X) X = Inr P" and "svd ext P = Some s"
    and "s \<noteq> []" and "sorted_wrt (\<lambda>a b. \<not> flt a b) s"
  shows "shape0 P = shape1 X
         \<and> (\<forall>v \<in> set s. \<not> flt (hd s) v)
         \<and> rank ext P tol_default
             = Inr (card {i. i < length s \<and> flt (fmul (hd s) tol_default) (s ! i)})
         \<and> (card {i. i < length s \<and> flt (fmul (hd s) tol_default) (s ! i)} \<noteq> shape0 P
              \<longrightarrow> QpFitter_init ext X reg = Inl AssertionError)
         \<and> (card {i. i < length s \<and> flt (fmul (hd s) tol_default) (s ! i)} = shape0 P
              \<longrightarrow> (\<exists>self. QpFitter_init ext X reg = Inr self
                     \<and> qp_X self = X \<and> qp_P self = P \<and> qp_reg self = reg))"
proof -
  from assms(1) have "shape0 P = shape1 X" by (auto simp: gram)
  moreover have "\<forall>v \<in> set s. \<not> flt (hd s) v"
    using hd_not_below [OF assms(4)] by blast
  moreover note r = rank_counts [OF assms(2,3), of tol_default]
  ultimately show ?thesis using assms(1)
    by (simp add: QpFitter_init_def r)
qed

lemma QpFitter_init_example:
  "\<exists>self. QpFitter_init example_externals (eye 3) (eye 3) = Inr self"
  by (simp add: QpFitter_init_def gram rank_def example_externals_def eye_def upt_rec
      tol_default_def f64_eval)

theorem qp_fitter_rank_check_witness:
  "QpFitter_init (with_svd [Finite 4 0, Finite 0 0]) (full 2 2 1) (eye 2) = Inl AssertionError
   \<and> (\<exists>self. QpFitter_init (with_svd [Finite 1 0, Finite 1 0]) (eye 2) (eye 2) = Inr self
         \<and> qp_X self = eye 2)"
proof -
  let ?dup = "[Finite 4 0, Finite 0 0]"
  obtain P where P: "dot (transpose_nd (full 2 2 1)) (full 2 2 1) = Inr P"
    by (simp add: gram)
  have s: "svd (with_svd ?dup) P = Some ?dup" by (simp add: with_svd_def)
  have ne: "?dup \<noteq> []" and desc: "sorted_wrt (\<lambda>a b. \<not> flt a b) ?dup"
    by (simp_all add: f64_eval)
  note dup = qp_fitter_rank_check [OF P s ne desc, of "eye 2"]
  have "rank (with_svd ?dup) P tol_default = Inr 1"
    by (simp add: rank_def with_svd_def tol_default_def f64_eval)
  with dup have "card {i. i < length ?dup \<and> flt (fmul (hd ?dup) tol_default) (?dup ! i)} = 1"
    by simp
  moreover from dup have "shape0 P = 2" by (simp add: full_def)
  ultimately have first:
    "QpFitter_init (with_svd ?dup) (full 2 2 1) (eye 2) = Inl AssertionError"
    using dup by simp
  let ?ones = "[Finite 1 0, Finite 1 0]"
  obtain P' where P': "dot (transpose_nd (eye 2)) (eye 2) = Inr P'"
    by (simp add: gram)
  have s': "svd (with_svd ?ones) P' = Some ?ones" by (simp add: with_svd_def)
  have ne': "?ones \<noteq> []" and desc': "sorted_wrt (\<lambda>a b. \<not> flt a b) ?ones"
    by (simp_all add: f64_eval)
  note full_rank = qp_fitter_rank_check [OF P' s' ne' desc', of "eye 2"]
  have "rank (with_svd ?ones) P' tol_default = Inr 2"
    by (simp add: rank_def with_svd_def tol_default_def f64_eval)
  with full_rank
  have "card {i. i < length ?ones \<and> flt (fmul (hd ?ones) tol_default) (?ones ! i)} = 2"
    by simp
  moreover from full_rank have "shape0 P' = 2" by (simp add: eye_def)
  ultimately have "\<exists>self. QpFitter_init (with_svd ?ones) (eye 2) (eye 2) = Inr self
      \<and> qp_X self = eye 2"
    using full_rank by auto
  with first show ?thesis by blast
qed

text \<open>
  Claim C3 as stated fails. For \<open>X = diag(1, 1e-4)\<close> the singular values of \<open>P\<close> are the
  float64 values 1 and \<open>1e-8\<close>. Both are strictly above \<^verbatim>\<open>10**-8\<close> times the largest one,
  since the float64 \<open>1e-8\<close> is above \<^verbatim>\<open>10**-8\<close>; that count, 2, is \<open>P.shape[0]\<close>. The
  constructor fails, because the second one is not above the float64 product.
\<close>

theorem qp_fitter_rank_counterexample:
  "QpFitter_init (with_svd [Finite 1 0, Finite 3022314549036573 (- 78)]) example_thin (eye 2)
     = Inl AssertionError
   \<and> valof (Finite 1 0) * (1 / 10 ^ 8) < valof (Finite 1 0)
   \<and> valof (Finite 1 0) * (1 / 10 ^ 8) < valof (Finite 3022314549036573 (- 78))"
  by (simp add: QpFitter_init_def gram rank_def with_svd_def tol_default_def f64_eval
      example_thin_def)

lemma bsize_one: "bsize a (Suc 0) = Some a"
  by (simp add: bsize_def)

lemma sum_list_neg: "(\<Sum>k \<leftarrow> ks. - f k) = - (\<Sum>k \<leftarrow> ks. (f k :: real))"
  by (simp add: uminus_sum_list_map o_def)

lemma inner_uminus: "inner (map uminus q) x = - inner q x"
proof -
  have "map (\<lambda>i. map uminus q ! i * x ! i) [0..<length q]
          = map (\<lambda>i. - (q ! i * x ! i)) [0..<length q]"
    by (rule map_cong [OF refl]) simp
  then have "(\<Sum>i \<leftarrow> [0..<length q]. map uminus q ! i * x ! i)
               = (\<Sum>i \<leftarrow> [0..<length q]. - (q ! i * x ! i))"
    by (rule arg_cong)
  also have "\<dots> = - (\<Sum>i \<leftarrow> [0..<length q]. q ! i * x ! i)"
    by (rule sum_list_neg)
  finally show ?thesis by (simp only: inner_def length_map)
qed

lemma quadprog_problem_nonneg:
  assumes "shape0 P = length Q" and "shape1 P = length Q" and "shape1 reg = length Q"
  shows "\<exists>prob. quadprog_problem P (map uminus Q) (negate reg) [0] = Inr prob
           \<and> sense prob = Minimize \<and> n_variables prob = length Q
           \<and> (\<forall>x. objective prob x = 0.5 * quad_form x P - inner Q x)
           \<and> (\<forall>x. constraints prob x
                 = (\<forall>i < shape0 reg. 0 \<le> (\<Sum>k \<leftarrow> [0..<length Q]. item reg i k * x ! k)))"
proof -
  define prob where "prob =
    \<lparr>sense = Minimize, n_variables = length Q,
     objective = (\<lambda>x. 0.5 * quad_form x P + inner (map uminus Q) x),
     constraints =
       (\<lambda>x. \<forall>i < shape0 reg.
              (\<Sum>k \<leftarrow> [0..<length Q]. item (negate reg) (bidx (shape0 (negate reg)) i) k * x ! k)
                \<le> [0] ! bidx (length [0 :: real]) i)\<rparr>"
  have "quadprog_problem P (map uminus Q) (negate reg) [0] = Inr prob"
    using assms
    by (simp add: quadprog_problem_def constraint_Gx_le_H_def prob_def Let_def bsize_one negate_def)
  moreover have "sense prob = Minimize" "n_variables prob = length Q"
    by (simp_all add: prob_def)
  moreover have "objective prob x = 0.5 * quad_form x P - inner Q x" for x
    by (simp add: prob_def inner_uminus)
  moreover have "constraints prob x
      = (\<forall>i < shape0 reg. 0 \<le> (\<Sum>k \<leftarrow> [0..<length Q]. item reg i k * x ! k))" for x
    by (auto simp: prob_def negate_def bidx_def sum_list_neg)
  ultimately show ?thesis by blast
qed

text \<open>
  Claim C1, amended. For a fitter built from \<open>X\<close> and \<open>reg\<close> (with as many columns as
  \<open>X\<close>) and a signal with one entry per row of \<open>X\<close>, the call computes
  \<open>Q = X\<^sup>T \<cdot> signal\<close> and hands \<open>-Q\<close> to \<open>quadprog\<close> as the linear term: what it
  returns is the solver's answer to minimising \<open>0.5 x\<^sup>T P x - Q\<^sup>T x\<close>, \<open>P = X\<^sup>T X\<close>,
  subject to \<open>reg \<cdot> x \<ge> 0\<close>.
\<close>

theorem qp_fitter_call_problem:
  assumes "QpFitter_init ext X reg = Inr self" and "length signal = shape0 X"
    and "shape1 reg = shape1 X"
  shows "\<exists>P Q prob. dot (transpose_nd X) X = Inr P
           \<and> dot_mv (transpose_nd X) signal = Inr Q
           \<and> QpFitter_Q_mat self signal = Inr (map uminus Q)
           \<and> QpFitter_call ext self signal = quadprog ext P (map uminus Q) (negate reg) [0]
           \<and> quadprog_problem P (map uminus Q) (negate reg) [0] = Inr prob
           \<and> QpFitter_call ext self signal
               = (case cvx_solve ext prob of
                    None \<Rightarrow> Inl CalleeError
                  | Some sol \<Rightarrow> Inr (x_value sol))
           \<and> sense prob = Minimize \<and> n_variables prob = shape1 X
           \<and> (\<forall>x. objective prob x = 0.5 * quad_form x P - inner Q x)
           \<and> (\<forall>x. constraints prob x
                 = (\<forall>i < shape0 reg. 0 \<le> (\<Sum>k \<leftarrow> [0..<shape1 X]. item reg i k * x ! k)))"
proof -
  obtain P where P: "dot (transpose_nd X) X = Inr P" and shP: "shape0 P = shape1 X" "shape1 P = shape1 X"
    by (simp add: gram)
  from assms(2) obtain Q where Q: "dot_mv (transpose_nd X) signal = Inr Q" and lenQ: "length Q = shape1 X"
    by (simp add: dot_mv_def transpose_nd_def)
  from assms(1) P have self: "qp_X self = X" "qp_P_mat self = P" "qp_reg_mat self = negate reg"
    "qp_h_mat self = [0]"
    by (auto simp: QpFitter_init_def split: sum.splits if_splits)
  have Qm: "QpFitter_Q_mat self signal = Inr (map uminus Q)"
    by (simp add: QpFitter_Q_mat_def self Q)
  have call: "QpFitter_call ext self signal = quadprog ext P (map uminus Q) (negate reg) [0]"
    by (simp add: QpFitter_call_def Qm self)
  from quadprog_problem_nonneg [of P Q reg] shP lenQ assms(3) obtain prob where
    prob: "quadprog_problem P (map uminus Q) (negate reg) [0] = Inr prob"
      "sense prob = Minimize" "n_variables prob = shape1 X"
      "\<forall>x. objective prob x = 0.5 * quad_form x P - inner Q x"
      "\<forall>x. constraints prob x
                 = (\<forall>i < shape0 reg. 0 \<le> (\<Sum>k \<leftarrow> [0..<shape1 X]. item reg i k * x ! k))"
    by auto
  have "QpFitter_call ext self signal
               = (case cvx_solve ext prob of
                    None \<Rightarrow> Inl CalleeError
                  | Some sol \<Rightarrow> Inr (x_value sol))"
    by (simp add: call quadprog_def prob(1))
  with P Q Qm call prob show ?thesis by blast
qed

theorem qp_fitter_call_problem_witness:
  "\<exists>self P prob.
      QpFitter_init example_externals (eye 3) (eye 3) = Inr self
      \<and> dot_mv (transpose_nd (eye 3)) [1, 2, 3] = Inr [1, 2, 3]
      \<and> QpFitter_Q_mat self [1, 2, 3] = Inr [- 1, - 2, - 3]
      \<and> QpFitter_call example_externals self [1, 2, 3]
          = quadprog example_externals P [- 1, - 2, - 3] (negate (eye 3)) [0]
      \<and> quadprog_problem P [- 1, - 2, - 3] (negate (eye 3)) [0] = Inr prob
      \<and> n_variables prob = 3"
proof -
  obtain self where self: "QpFitter_init example_externals (eye 3) (eye 3) = Inr self"
    using QpFitter_init_example by blast
  have len: "length [1, 2, 3 :: real] = shape0 (eye 3)" and sh: "shape1 (eye 3) = shape1 (eye 3)"
    by (simp_all add: eye_def)
  have Q: "dot_mv (transpose_nd (eye 3)) [1, 2, 3] = Inr [1, 2, 3]"
    by (simp add: dot_mv_def transpose_nd_def eye_def upt_rec)
  from qp_fitter_call_problem [OF self len sh] Q self show ?thesis
    by (auto simp: eye_def)
qed

text \<open>
  Claim C1 as stated fails: for \<open>X\<close> the identity of size 3 and the signal \<open>(1, 2, 3)\<close>
  the linear term handed to the solver is \<open>(-1, -2, -3)\<close>, and \<open>X\<^sup>T \<cdot> signal\<close> is
  \<open>(1, 2, 3)\<close>.
\<close>

theorem qp_linear_term_counterexample:
  "QpFitter_Q_mat example_fitter [1, 2, 3] = Inr [- 1, - 2, - 3]
   \<and> dot_mv (transpose_nd (qp_X example_fitter)) [1, 2, 3] = Inr [1, 2, 3]"
  by (simp add: QpFitter_Q_mat_def example_fitter_def dot_mv_def transpose_nd_def eye_def upt_rec)

text \<open>
  Two more inputs at which float64 rounding decides. The shells written 995.1 and 1005.3
  with the b-value 1000.2: the second float64 difference is the smaller one, though the
  decimal numbers are equally far. The singular values written 1.9 and \<open>1.9e-8\<close>: the
  second is above the float64 product of the first and \<open>1e-8\<close>, so both are counted.
\<close>

lemma closest_decimal_tie:
  "closest [Finite 8752992166399181 (- 43), Finite 4421356157612851 (- 42)]
     [Finite 4398926120406221 (- 42)] = Inr [1]"
  by (simp add: closest_def argmin_def f64_eval)

lemma rank_at_rounded_product:
  "rank (with_svd [Finite 4278419646001971 (- 51), Finite 5742397643169489 (- 78)]) A tol_default
     = Inr 2"
  by (simp add: rank_def with_svd_def tol_default_def f64_eval)

end
